theory Spec2Isabelle
  imports Main "HOL-Library.Char_ord" "HOL-Library.List_Lexorder" "HOL-Library.Multiset"
begin

section \<open>The attendance backend\<close>

text \<open>
  The repository holds three variants of one Express server:
  \<^item> the facial variant with in-memory arrays (\<^verbatim>\<open>src/server.js\<close>, lines 1 to 243);
  \<^item> the fingerprint variant with in-memory arrays (\<^verbatim>\<open>src/unnamed/part_000\<close>);
  \<^item> the fingerprint variant on mongoose (\<^verbatim>\<open>src/server.js\<close>, lines 244 to 540).

  The two in-memory variants are the same program up to the names of the body fields, the
  texts of the messages and the resolver (\<^verbatim>\<open>identifyUserFromVector\<close> against
  \<^verbatim>\<open>identifyUserFromFingerprint\<close>); they are embedded once, with the variant as a
  parameter. A request enters the model after \<^verbatim>\<open>bodyParser.json()\<close> has parsed its
  body. The wall clock (\<^verbatim>\<open>new Date()\<close>) and \<^verbatim>\<open>crypto.randomBytes(4)\<close> are inputs
  of each request. The handlers of the mongoose variant are embedded with the answers of
  the database as inputs of each request.
\<close>

subsection \<open>JavaScript values\<close>

text \<open>
  A parsed JSON value. A number is kept as an integer: the handlers only test a number for
  being zero. \<^verbatim>\<open>undefined\<close> (an absent field) is \<open>None\<close> of \<open>json option\<close>.
\<close>

datatype json =
    JNull
  | JBool bool
  | JNum int
  | JStr string
  | JArr "json list"
  | JObj "(string \<times> json) list"

text \<open>\<^verbatim>\<open>!x\<close>: the falsy values are undefined, null, false, 0 and the empty string.\<close>

fun falsy :: "json option \<Rightarrow> bool" where
  "falsy None = True"
| "falsy (Some JNull) = True"
| "falsy (Some (JBool b)) = (\<not> b)"
| "falsy (Some (JNum n)) = (n = 0)"
| "falsy (Some (JStr s)) = (s = [])"
| "falsy (Some (JArr xs)) = False"
| "falsy (Some (JObj kvs)) = False"

text \<open>
  \<^verbatim>\<open>crypto.randomBytes(4).toString('hex')\<close>: the eight lower-case hexadecimal digits of
  the four random bytes, read as one number \<open>r\<close> (only \<open>r mod 2 ^ 32\<close> matters).
\<close>

definition hexdigit :: "nat \<Rightarrow> char" where
  "hexdigit d = ''0123456789abcdef'' ! d"

definition toHex4 :: "nat \<Rightarrow> string" where
  "toHex4 r = map (\<lambda>i. hexdigit (r div 16 ^ i mod 16)) [7, 6, 5, 4, 3, 2, 1, 0]"

subsection \<open>The data layer\<close>

datatype evtype = IN | OUT

text \<open>
  \<^verbatim>\<open>users\<close> stores \<^verbatim>\<open>{ id, name, facialVector, createdAt }\<close> (the fingerprint variant
  calls the third field \<^verbatim>\<open>fingerprintTemplate\<close>). The name is whatever truthy value the
  request carried. Times are milliseconds since the epoch, which
  \<^verbatim>\<open>toISOString\<close> prints and \<^verbatim>\<open>new Date(...)\<close> reads back.
\<close>

record user =
  user_id :: string
  user_name :: json
  facialVector :: json
  createdAt :: nat

text \<open>\<^verbatim>\<open>attendanceRecords\<close> stores \<^verbatim>\<open>{ id, userId, timestamp, type, device }\<close>.\<close>

record attendance =
  rec_id :: string
  userId :: string
  timestamp :: nat
  etype :: evtype
  device :: string

text \<open>A row of the report: \<^verbatim>\<open>{ ...record, userName }\<close>.\<close>

record report_row = attendance +
  userName :: json

record state =
  users :: "user list"
  attendanceRecords :: "attendance list"

definition init :: state where
  "init = \<lparr>users = [], attendanceRecords = []\<rparr>"

subsection \<open>Sorting\<close>

text \<open>
  \<^verbatim>\<open>Array.prototype.sort(cmp)\<close> is a stable sort: \<open>x\<close> stays before \<open>y\<close> unless
  \<open>cmp x y > 0\<close>. For a comparator that is a total preorder the result is determined by
  that alone; insertion from the right computes it.
\<close>

fun insert_by :: "('a \<Rightarrow> 'a \<Rightarrow> int) \<Rightarrow> 'a \<Rightarrow> 'a list \<Rightarrow> 'a list" where
  "insert_by cmp x [] = [x]"
| "insert_by cmp x (y # ys) = (if cmp x y \<le> 0 then x # y # ys else y # insert_by cmp x ys)"

definition js_sort :: "('a \<Rightarrow> 'a \<Rightarrow> int) \<Rightarrow> 'a list \<Rightarrow> 'a list" where
  "js_sort cmp xs = foldr (insert_by cmp) xs []"

text \<open>\<^verbatim>\<open>(a, b) => new Date(b.timestamp) - new Date(a.timestamp)\<close>.\<close>

definition newest_first :: "'a attendance_scheme \<Rightarrow> 'a attendance_scheme \<Rightarrow> int" where
  "newest_first a b = int (timestamp b) - int (timestamp a)"

subsection \<open>The resolver\<close>

text \<open>
  Each handler calls its resolver with a value that has passed \<^verbatim>\<open>Array.isArray\<close> (it
  answers 400 to every other value before the call), so the resolvers are embedded on
  arrays, given as the lists of their elements. Of an array, whatever its elements,
  \<^verbatim>\<open>!incomingVector\<close> and \<^verbatim>\<open>!Array.isArray(incomingTemplate)\<close> are false, and
  \<^verbatim>\<open>.length\<close> is the number of elements.
\<close>

text \<open>
  \<^verbatim>\<open>identifyUserFromVector\<close> of the facial variant: null below 100 elements, the id of
  \<^verbatim>\<open>users[0]\<close> when there is one and the vector has more than 100 elements, null otherwise.
\<close>

definition identifyUserFromVector :: "user list \<Rightarrow> json list \<Rightarrow> string option" where
  "identifyUserFromVector us incomingVector =
     (if length incomingVector < 100 then None
      else (case us of
              [] \<Rightarrow> None
            | mockUser # rest \<Rightarrow>
                (if 100 < length incomingVector then Some (user_id mockUser) else None)))"

text \<open>
  \<^verbatim>\<open>identifyUserFromFingerprint\<close> of the in-memory fingerprint variant: null below 50
  elements, else the id of the first user when there is one.
\<close>

definition identifyUserFromFingerprint :: "user list \<Rightarrow> json list \<Rightarrow> string option" where
  "identifyUserFromFingerprint us incomingTemplate =
     (if length incomingTemplate < 50 then None
      else (case us of [] \<Rightarrow> None | mockUser # rest \<Rightarrow> Some (user_id mockUser)))"

datatype variant = Facial | Fingerprint

fun identify :: "variant \<Rightarrow> user list \<Rightarrow> json list \<Rightarrow> string option" where
  "identify Facial = identifyUserFromVector"
| "identify Fingerprint = identifyUserFromFingerprint"

text \<open>The length below which the resolver of a variant answers null at once.\<close>

fun floor_of :: "variant \<Rightarrow> nat" where
  "floor_of Facial = 100"
| "floor_of Fingerprint = 50"

subsection \<open>Requests and responses\<close>

datatype api_route = Enroll | CheckInOut | Report

datatype route = Api api_route | Health

text \<open>
  What a handler reads of a request: the \<^verbatim>\<open>x-api-key\<close> header, the fields of the parsed
  body, \<^verbatim>\<open>req.query.userId\<close> and \<^verbatim>\<open>req.ip\<close>. The query value is a string when
  the parameter is given once (\<open>None\<close> when it is absent); the arrays and objects that the
  query parser builds from repeated or bracketed parameters are left out.
\<close>

record request =
  route :: route
  x_api_key :: "string option"
  req_body :: "string \<Rightarrow> json option"
  query_userId :: "string option"
  ip :: string

text \<open>What a handler reads of the world: \<^verbatim>\<open>new Date()\<close> and \<^verbatim>\<open>crypto.randomBytes(4)\<close>.\<close>

record env =
  now :: nat
  rand4 :: nat

text \<open>
  One constructor for each \<^verbatim>\<open>res.json(...)\<close> of the source, with the values it puts
  into the body:
  \<^item> \<open>Unauthorized\<close>: \<^verbatim>\<open>{ message: 'Unauthorized: Invalid or missing X-API-Key header.' }\<close>
  \<^item> \<open>MissingEnrollFields\<close>: \<^verbatim>\<open>{ message: 'Missing required fields: ...' }\<close>
  \<^item> \<open>Enrolled id name createdAt\<close>: \<^verbatim>\<open>{ message, user: { id, name, createdAt } }\<close>
  \<^item> \<open>MissingScanField\<close>: \<^verbatim>\<open>{ message: 'Missing required field: incomingVector.' }\<close>
  \<^item> \<open>NotRecognized\<close>: \<^verbatim>\<open>{ message: 'Facial identity not recognized. Please try again.' }\<close>
  \<^item> \<open>Recorded userName type timestamp\<close>: the message built from \<^verbatim>\<open>userName\<close> and
    \<^verbatim>\<open>eventType\<close>, and \<^verbatim>\<open>record: { timestamp, type }\<close>
  \<^item> \<open>UserNotFound userId\<close>: the message built from \<^verbatim>\<open>userId\<close>
  \<^item> \<open>ReportOK totalRecords report\<close>: \<^verbatim>\<open>{ totalRecords, report }\<close>
  \<^item> \<open>HealthOK n\<close>: \<^verbatim>\<open>{ status: 'ok', service, mockDbUsers: n }\<close>

  The texts are those of the facial variant; the fingerprint variant says "fingerprint" and
  "Student" where the facial one says "facial" and "User".
\<close>

datatype body =
    Unauthorized
  | MissingEnrollFields
  | Enrolled string json nat
  | MissingScanField
  | NotRecognized
  | Recorded json evtype nat
  | UserNotFound string
  | ReportOK nat "report_row list"
  | HealthOK nat

record response =
  status :: nat
  body :: body

subsection \<open>The key check\<close>

text \<open>\<^verbatim>\<open>apiKey && apiKey === REQUIRED_API_KEY\<close>.\<close>

definition apiAuth :: "string \<Rightarrow> request \<Rightarrow> bool" where
  "apiAuth REQUIRED_API_KEY req =
     (case x_api_key req of
        None \<Rightarrow> False
      | Some apiKey \<Rightarrow> (if apiKey = [] then False else apiKey = REQUIRED_API_KEY))"

subsection \<open>The handlers of the in-memory variants\<close>

fun enroll_field :: "variant \<Rightarrow> string" where
  "enroll_field Facial = ''facialVector''"
| "enroll_field Fingerprint = ''fingerprintTemplate''"

fun scan_field :: "variant \<Rightarrow> string" where
  "scan_field Facial = ''incomingVector''"
| "scan_field Fingerprint = ''incomingTemplate''"

fun unknown_name :: "variant \<Rightarrow> string" where
  "unknown_name Facial = ''Unknown User''"
| "unknown_name Fingerprint = ''Unknown Student''"

text \<open>\<^verbatim>\<open>POST /api/v1/users/enroll\<close>.\<close>

definition enroll :: "variant \<Rightarrow> state \<Rightarrow> env \<Rightarrow> request \<Rightarrow> response \<times> state" where
  "enroll v st e req =
     (let name = req_body req ''name'';
          vector = req_body req (enroll_field v);
          missing = (\<lparr>status = 400, body = MissingEnrollFields\<rparr>, st)
      in if falsy name then missing
         else if falsy vector then missing
         else (case (name, vector) of
                 (Some n, Some (JArr xs)) \<Rightarrow>
                   (if length xs = 0 then missing
                    else
                      (let newUser = \<lparr>user_id = toHex4 (rand4 e), user_name = n,
                                       facialVector = JArr xs, createdAt = now e\<rparr>
                       in (\<lparr>status = 201,
                            body = Enrolled (user_id newUser) (user_name newUser) (createdAt newUser)\<rparr>,
                           st\<lparr>users := users st @ [newUser]\<rparr>)))
               | _ \<Rightarrow> missing))"

text \<open>
  \<^verbatim>\<open>attendanceRecords.filter(record => record.userId === userId).sort(...)[0]\<close>: the
  first element of the sorted copy, undefined when there is none.
\<close>

definition lastRecord :: "attendance list \<Rightarrow> string \<Rightarrow> attendance option" where
  "lastRecord records uid =
     (case js_sort newest_first (filter (\<lambda>record. userId record = uid) records) of
        [] \<Rightarrow> None
      | r # rest \<Rightarrow> Some r)"

text \<open>\<^verbatim>\<open>(!lastRecord || lastRecord.type === 'OUT') ? 'IN' : 'OUT'\<close>.\<close>

definition eventType :: "attendance option \<Rightarrow> evtype" where
  "eventType lr = (case lr of None \<Rightarrow> IN | Some r \<Rightarrow> (if etype r = OUT then IN else OUT))"

text \<open>\<^verbatim>\<open>users.find(u => u.id === userId)?.name || 'Unknown User'\<close>.\<close>

definition userName_of :: "variant \<Rightarrow> user list \<Rightarrow> string \<Rightarrow> json" where
  "userName_of v us uid =
     (case find (\<lambda>u. user_id u = uid) us of
        None \<Rightarrow> JStr (unknown_name v)
      | Some u \<Rightarrow> (if falsy (Some (user_name u)) then JStr (unknown_name v) else user_name u))"

text \<open>\<^verbatim>\<open>POST /api/v1/attendance/check_in_out\<close>.\<close>

definition check_in_out :: "variant \<Rightarrow> state \<Rightarrow> env \<Rightarrow> request \<Rightarrow> response \<times> state" where
  "check_in_out v st e req =
     (let incoming = req_body req (scan_field v);
          missing = (\<lparr>status = 400, body = MissingScanField\<rparr>, st);
          unrecognized = (\<lparr>status = 404, body = NotRecognized\<rparr>, st)
      in if falsy incoming then missing
         else (case incoming of
                 Some (JArr xs) \<Rightarrow>
                   (if length xs = 0 then missing
                    else (case identify v (users st) xs of
                            None \<Rightarrow> unrecognized
                          | Some uid \<Rightarrow>
                              (if uid = [] then unrecognized
                               else
                                 (let newRecord = \<lparr>rec_id = toHex4 (rand4 e), userId = uid,
                                        timestamp = now e,
                                        etype = eventType (lastRecord (attendanceRecords st) uid),
                                        device = ip req\<rparr>
                                  in (\<lparr>status = 200,
                                       body = Recorded (userName_of v (users st) uid)
                                                (etype newRecord) (timestamp newRecord)\<rparr>,
                                      st\<lparr>attendanceRecords :=
                                           attendanceRecords st @ [newRecord]\<rparr>)))))
               | _ \<Rightarrow> missing))"

text \<open>
  The report: \<^verbatim>\<open>report.map(record => ({ ...record, userName: user ? user.name : 'N/A' }))\<close>,
  sorted newest first.
\<close>

definition add_userName :: "user list \<Rightarrow> attendance \<Rightarrow> report_row" where
  "add_userName us record =
     \<lparr>rec_id = rec_id record, userId = userId record, timestamp = timestamp record,
      etype = etype record, device = device record,
      userName = (case find (\<lambda>u. user_id u = userId record) us of
                    None \<Rightarrow> JStr ''N/A''
                  | Some u \<Rightarrow> user_name u)\<rparr>"

definition detailedReport :: "user list \<Rightarrow> attendance list \<Rightarrow> report_row list" where
  "detailedReport us report = js_sort newest_first (map (add_userName us) report)"

text \<open>
  \<^verbatim>\<open>GET /api/v1/attendance/report\<close>. The route has no path parameter, so
  \<^verbatim>\<open>req.query.userId || req.params.userId\<close> is the query value when that is truthy.
\<close>

definition report_records :: "state \<Rightarrow> request \<Rightarrow> attendance list" where
  "report_records st req =
     (case query_userId req of
        None \<Rightarrow> attendanceRecords st
      | Some uid \<Rightarrow>
          (if uid = [] then attendanceRecords st
           else filter (\<lambda>record. userId record = uid) (attendanceRecords st)))"

definition report :: "state \<Rightarrow> request \<Rightarrow> response \<times> state" where
  "report st req =
     (let d = detailedReport (users st) (report_records st req);
          listing = (\<lparr>status = 200, body = ReportOK (length d) d\<rparr>, st)
      in case query_userId req of
           None \<Rightarrow> listing
         | Some uid \<Rightarrow>
             (if uid = [] then listing
              else if list_ex (\<lambda>u. user_id u = uid) (users st) then listing
              else (\<lparr>status = 404, body = UserNotFound uid\<rparr>, st)))"

text \<open>\<^verbatim>\<open>GET /health\<close>.\<close>

definition health :: "state \<Rightarrow> response \<times> state" where
  "health st = (\<lparr>status = 200, body = HealthOK (length (users st))\<rparr>, st)"

text \<open>
  The application: \<^verbatim>\<open>/health\<close> is mounted on the app, the three routes on a router
  behind \<^verbatim>\<open>router.use(apiAuth)\<close>.
\<close>

definition router ::
  "variant \<Rightarrow> string \<Rightarrow> state \<Rightarrow> env \<Rightarrow> request \<Rightarrow> api_route \<Rightarrow> response \<times> state" where
  "router v key st e req r =
     (if apiAuth key req then
        (case r of
           Enroll \<Rightarrow> enroll v st e req
         | CheckInOut \<Rightarrow> check_in_out v st e req
         | Report \<Rightarrow> report st req)
      else (\<lparr>status = 401, body = Unauthorized\<rparr>, st))"

definition handle :: "variant \<Rightarrow> string \<Rightarrow> state \<Rightarrow> env \<Rightarrow> request \<Rightarrow> response \<times> state" where
  "handle v key st e req =
     (case route req of
        Health \<Rightarrow> health st
      | Api r \<Rightarrow> router v key st e req r)"

text \<open>A sequence of requests, served one after the other.\<close>

fun run :: "variant \<Rightarrow> string \<Rightarrow> state \<Rightarrow> (env \<times> request) list \<Rightarrow> state" where
  "run v key st [] = st"
| "run v key st ((e, req) # rest) = run v key (snd (handle v key st e req)) rest"

fun responses :: "variant \<Rightarrow> string \<Rightarrow> state \<Rightarrow> (env \<times> request) list \<Rightarrow> response list" where
  "responses v key st [] = []"
| "responses v key st ((e, req) # rest) =
     fst (handle v key st e req) # responses v key (snd (handle v key st e req)) rest"

subsection \<open>The mongoose variant\<close>

text \<open>
  The mongoose variant keeps users and attendance in a database. Every
  \<^verbatim>\<open>await\<close> on a model is an input of the request here: the answer of the database,
  or \<open>None\<close> when the call throws, which the \<^verbatim>\<open>catch\<close> of each handler answers
  with 500.

  \<^verbatim>\<open>UserSchema\<close> declares \<^verbatim>\<open>fingerprintTemplate\<close> with \<^verbatim>\<open>select: false\<close>: a query
  returns user documents without it, unless it asks with
  \<^verbatim>\<open>.select('+fingerprintTemplate')\<close>. A user document of a plain query has the fields
  \<^verbatim>\<open>_id\<close>, \<^verbatim>\<open>name\<close> (a String of the schema) and \<^verbatim>\<open>createdAt\<close>.
\<close>

record user_doc =
  doc_id :: string
  doc_name :: string
  doc_createdAt :: nat

text \<open>
  A row of \<^verbatim>\<open>Attendance.find(query).populate('userId', 'name')\<close>: an attendance document
  whose \<^verbatim>\<open>userId\<close> holds \<^verbatim>\<open>{ _id, name }\<close> of the user, or null when there is none.
\<close>

record populated_row =
  row_id :: string
  row_user :: "(string \<times> string) option"
  row_timestamp :: nat
  row_type :: evtype
  row_device :: string

text \<open>
  The answers of the database to the calls of one request:
  \<^item> \<open>users_with_templates\<close>: \<^verbatim>\<open>User.find({}).select('+fingerprintTemplate')\<close>, the
    users with their templates;
  \<^item> \<open>user_named name\<close>: \<^verbatim>\<open>User.findOne({ name })\<close>, a document or null;
  \<^item> \<open>new_user name\<close>: the \<^verbatim>\<open>_id\<close>, \<^verbatim>\<open>name\<close> and \<^verbatim>\<open>createdAt\<close> that
    \<^verbatim>\<open>new User({ name, fingerprintTemplate })\<close> gives the document (a generated id, the
    name cast to a String, the default \<^verbatim>\<open>Date.now\<close>);
  \<^item> \<open>user_saved\<close>: whether \<^verbatim>\<open>newUser.save()\<close> resolves;
  \<^item> \<open>users_by_name\<close>: \<^verbatim>\<open>User.find({}).sort({ name: 1 })\<close>;
  \<^item> \<open>latest_of userId\<close>: \<^verbatim>\<open>Attendance.findOne({ userId }).sort({ timestamp: -1 })\<close>, a
    document or null;
  \<^item> \<open>attendance_saved\<close>: whether \<^verbatim>\<open>newRecord.save()\<close> resolves;
  \<^item> \<open>user_by_id userId\<close>: \<^verbatim>\<open>User.findById(userId)\<close>, a document or null;
  \<^item> \<open>sorted_report query\<close>:
    \<^verbatim>\<open>Attendance.find(query).populate('userId', 'name').sort({ timestamp: -1 })\<close>, for the
    query \<^verbatim>\<open>{}\<close> (\<open>None\<close>) or \<^verbatim>\<open>{ userId }\<close>;
  \<^item> \<open>readyState\<close>: \<^verbatim>\<open>mongoose.connection.readyState\<close>.
\<close>

record db =
  users_with_templates :: "user list option"
  user_named :: "json \<Rightarrow> user_doc option option"
  new_user :: "json \<Rightarrow> user_doc"
  user_saved :: bool
  users_by_name :: "user_doc list option"
  latest_of :: "string \<Rightarrow> attendance option option"
  attendance_saved :: bool
  user_by_id :: "string \<Rightarrow> user_doc option option"
  sorted_report :: "string option \<Rightarrow> populated_row list option"
  readyState :: nat

text \<open>
  \<^verbatim>\<open>GET /api/v1/attendance/report\<close> of the mongoose variant, behind the same
  \<^verbatim>\<open>apiAuth\<close>. Two library calls are parameters: \<open>isValid\<close> is
  \<^verbatim>\<open>mongoose.Types.ObjectId.isValid\<close>, and \<open>find_sorted query\<close> is the sorted and
  populated query, with \<open>None\<close> when it throws (the handler's \<^verbatim>\<open>catch\<close> answers 500).
\<close>

datatype 'r mongoose_body = InvalidIdFormat | ReportM nat "'r list" | InternalError

definition report_mongoose ::
  "(string \<Rightarrow> bool) \<Rightarrow> (string option \<Rightarrow> 'r list option) \<Rightarrow> string option
     \<Rightarrow> nat \<times> 'r mongoose_body" where
  "report_mongoose isValid find_sorted queryUserId =
     (let answer = (\<lambda>query. case find_sorted query of
                               None \<Rightarrow> (500, InternalError)
                             | Some rows \<Rightarrow> (200, ReportM (length rows) rows))
      in case queryUserId of
           None \<Rightarrow> answer None
         | Some uid \<Rightarrow>
             (if uid = [] then answer None
              else if isValid uid then answer (Some uid)
              else (400, InvalidIdFormat)))"

text \<open>
  The bodies of the other responses of the mongoose variant, one constructor for each
  \<^verbatim>\<open>res.json(...)\<close>:
  \<^item> \<open>M_Unauthorized\<close>, \<open>M_MissingEnrollFields\<close>, \<open>M_MissingScanField\<close>,
    \<open>M_NotRecognized\<close>: the fixed messages of 401, 400, 400 and 404;
  \<^item> \<open>M_Duplicate name\<close>: 409, the message built from the \<^verbatim>\<open>name\<close> of the request;
  \<^item> \<open>M_Enrolled id name createdAt\<close>: \<^verbatim>\<open>{ message, user: { id, name, createdAt } }\<close>;
  \<^item> \<open>M_Users allUsers\<close>: the documents of \<^verbatim>\<open>GET /users\<close>;
  \<^item> \<open>M_Recorded studentName type timestamp\<close>: the message built from
    \<^verbatim>\<open>studentName\<close> and \<^verbatim>\<open>eventType\<close>, and \<^verbatim>\<open>record: { timestamp, type }\<close>;
  \<^item> \<open>M_Report body\<close>: a body of the report handler;
  \<^item> \<open>M_Health n\<close>: \<^verbatim>\<open>{ status: 'ok', service, dbState: n }\<close>;
  \<^item> \<open>M_InternalError\<close>: the fixed message of a \<^verbatim>\<open>catch\<close>, 500.
\<close>

datatype mongoose_reply =
    M_Unauthorized
  | M_MissingEnrollFields
  | M_Duplicate json
  | M_Enrolled string string nat
  | M_Users "user_doc list"
  | M_MissingScanField
  | M_NotRecognized
  | M_Recorded string evtype nat
  | M_Report "populated_row mongoose_body"
  | M_Health nat
  | M_InternalError

text \<open>\<^verbatim>\<open>POST /api/v1/users/enroll\<close> of the mongoose variant.\<close>

definition enroll_mongoose :: "db \<Rightarrow> request \<Rightarrow> nat \<times> mongoose_reply" where
  "enroll_mongoose d req =
     (let name = req_body req ''name'';
          fingerprintTemplate = req_body req ''fingerprintTemplate'';
          missing = (400, M_MissingEnrollFields)
      in if falsy name then missing
         else if falsy fingerprintTemplate then missing
         else (case (name, fingerprintTemplate) of
                 (Some n, Some (JArr xs)) \<Rightarrow>
                   (if length xs = 0 then missing
                    else (case user_named d n of
                            None \<Rightarrow> (500, M_InternalError)
                          | Some (Some existingUser) \<Rightarrow> (409, M_Duplicate n)
                          | Some None \<Rightarrow>
                              (if user_saved d then
                                 (let newUser = new_user d n
                                  in (201, M_Enrolled (doc_id newUser) (doc_name newUser)
                                             (doc_createdAt newUser)))
                               else (500, M_InternalError))))
               | _ \<Rightarrow> missing))"

text \<open>\<^verbatim>\<open>GET /api/v1/users\<close>: the documents of a plain query, as they are.\<close>

definition users_mongoose :: "db \<Rightarrow> nat \<times> mongoose_reply" where
  "users_mongoose d =
     (case users_by_name d of
        None \<Rightarrow> (500, M_InternalError)
      | Some allUsers \<Rightarrow> (200, M_Users allUsers))"

text \<open>
  The asynchronous \<^verbatim>\<open>identifyUserFromFingerprint\<close>: null below 50 elements, before any
  query; else the \<^verbatim>\<open>_id\<close> of \<^verbatim>\<open>allUsers[0]\<close> when there is one. The outer \<open>None\<close>
  is the query throwing.
\<close>

definition identifyUserFromFingerprint_async :: "db \<Rightarrow> json list \<Rightarrow> string option option" where
  "identifyUserFromFingerprint_async d incomingTemplate =
     (if length incomingTemplate < 50 then Some None
      else (case users_with_templates d of
              None \<Rightarrow> None
            | Some allUsers \<Rightarrow>
                Some (case allUsers of [] \<Rightarrow> None | matchedUser # rest \<Rightarrow> Some (user_id matchedUser))))"

text \<open>
  \<^verbatim>\<open>POST /api/v1/attendance/check_in_out\<close> of the mongoose variant. The \<^verbatim>\<open>_id\<close> that
  the resolver returns is an object, which is truthy. The new record takes its timestamp
  from the default \<^verbatim>\<open>Date.now\<close>.
\<close>

definition check_in_out_mongoose :: "db \<Rightarrow> env \<Rightarrow> request \<Rightarrow> nat \<times> mongoose_reply" where
  "check_in_out_mongoose d e req =
     (let incomingTemplate = req_body req ''incomingTemplate'';
          missing = (400, M_MissingScanField)
      in if falsy incomingTemplate then missing
         else (case incomingTemplate of
                 Some (JArr xs) \<Rightarrow>
                   (if length xs = 0 then missing
                    else (case identifyUserFromFingerprint_async d xs of
                            None \<Rightarrow> (500, M_InternalError)
                          | Some None \<Rightarrow> (404, M_NotRecognized)
                          | Some (Some uid) \<Rightarrow>
                              (case latest_of d uid of
                                 None \<Rightarrow> (500, M_InternalError)
                               | Some lastRec \<Rightarrow>
                                   (if attendance_saved d then
                                      (case user_by_id d uid of
                                         None \<Rightarrow> (500, M_InternalError)
                                       | Some student \<Rightarrow>
                                           (200, M_Recorded
                                                   (case student of
                                                      None \<Rightarrow> ''Unknown Student''
                                                    | Some s \<Rightarrow> doc_name s)
                                                   (eventType lastRec) (now e)))
                                    else (500, M_InternalError)))))
               | _ \<Rightarrow> missing))"

text \<open>
  The mongoose application: \<^verbatim>\<open>/health\<close> on the app, the four routes on the router
  behind \<^verbatim>\<open>router.use(apiAuth)\<close>. The route is given apart from the request, this
  variant having one route more.
\<close>

datatype mongoose_route = PostEnroll | GetUsers | PostCheckInOut | GetReport | GetHealth

definition handle_mongoose ::
  "(string \<Rightarrow> bool) \<Rightarrow> string \<Rightarrow> db \<Rightarrow> env \<Rightarrow> mongoose_route \<Rightarrow> request
     \<Rightarrow> nat \<times> mongoose_reply" where
  "handle_mongoose isValid key d e r req =
     (case r of
        GetHealth \<Rightarrow> (200, M_Health (readyState d))
      | PostEnroll \<Rightarrow>
          (if apiAuth key req then enroll_mongoose d req else (401, M_Unauthorized))
      | GetUsers \<Rightarrow>
          (if apiAuth key req then users_mongoose d else (401, M_Unauthorized))
      | PostCheckInOut \<Rightarrow>
          (if apiAuth key req then check_in_out_mongoose d e req else (401, M_Unauthorized))
      | GetReport \<Rightarrow>
          (if apiAuth key req then
             (case report_mongoose isValid (sorted_report d) (query_userId req) of
                (code, b) \<Rightarrow> (code, M_Report b))
           else (401, M_Unauthorized)))"

section \<open>What the specification says\<close>

subsection \<open>The order of events\<close>

text \<open>
  The specification orders events "by timestamp, ties broken by event id descending":
  \<open>newer a b\<close> when \<open>a\<close> comes after \<open>b\<close> in that order. Ids are compared as strings.
\<close>

definition newer :: "'a attendance_scheme \<Rightarrow> 'a attendance_scheme \<Rightarrow> bool" where
  "newer a b = (timestamp b < timestamp a \<or> (timestamp b = timestamp a \<and> rec_id b < rec_id a))"

text \<open>The event history of an identity: its events, in the order they were appended.\<close>

definition history :: "attendance list \<Rightarrow> string \<Rightarrow> attendance list" where
  "history records uid = filter (\<lambda>x. userId x = uid) records"

text \<open>An event of a history that is later, by timestamp, than every other one.\<close>

definition single_latest :: "attendance list \<Rightarrow> attendance \<Rightarrow> bool" where
  "single_latest h l = (l \<in> set h \<and> list_all (\<lambda>x. x = l \<or> timestamp x < timestamp l) h)"

text \<open>
  An event of a history that bears the latest timestamp, where all events of that timestamp
  have one type. An event that is later than every other one is the plain case.
\<close>

definition latest_of_one_type :: "attendance list \<Rightarrow> attendance \<Rightarrow> bool" where
  "latest_of_one_type h l =
     (l \<in> set h \<and>
      list_all (\<lambda>x. timestamp x < timestamp l \<or> (timestamp x = timestamp l \<and> etype x = etype l)) h)"

text \<open>The most recent event of a history in the order of the specification.\<close>

fun spec_latest :: "attendance list \<Rightarrow> attendance option" where
  "spec_latest [] = None"
| "spec_latest (x # xs) =
     (case spec_latest xs of
        None \<Rightarrow> Some x
      | Some y \<Rightarrow> (if newer y x then Some y else Some x))"

text \<open>A listing in that order, newest first: no row is newer than a row before it.\<close>

definition spec_listing_order :: "'a attendance_scheme list \<Rightarrow> bool" where
  "spec_listing_order rows = sorted_wrt (\<lambda>a b. \<not> newer b a) rows"

subsection \<open>Alternation\<close>

text \<open>A sequence of event types that alternates, starting with the expected type.\<close>

fun alternates :: "evtype \<Rightarrow> evtype list \<Rightarrow> bool" where
  "alternates expected [] = True"
| "alternates expected (t # ts) =
     (t = expected \<and> alternates (if expected = IN then OUT else IN) ts)"

text \<open>
  The invariant of the ledger: for each identity with events, the timestamps of its history
  increase strictly in the order of appending, and the types alternate from IN.
\<close>

definition ledger_alternates :: "attendance list \<Rightarrow> bool" where
  "ledger_alternates records =
     list_all (\<lambda>uid. sorted_wrt (<) (map timestamp (history records uid)) \<and>
                     alternates IN (map etype (history records uid)))
       (map userId records)"

text \<open>
  A sequence of requests whose clock, at each request, is later than every timestamp of the
  ledger at that moment.
\<close>

fun ticking :: "variant \<Rightarrow> string \<Rightarrow> state \<Rightarrow> (env \<times> request) list \<Rightarrow> bool" where
  "ticking v key st [] = True"
| "ticking v key st ((e, req) # rest) =
     (list_all (\<lambda>r. timestamp r < now e) (attendanceRecords st) \<and>
      ticking v key (snd (handle v key st e req)) rest)"

subsection \<open>Acceptance by confidence\<close>

text \<open>
  The source has no Matcher and no threshold. For a scoring function \<open>conf\<close> and a
  threshold \<open>\<theta>\<close>, an identity is a confident match of a probe when it is enrolled with a
  template that scores at least \<open>\<theta>\<close> against the probe.
\<close>

definition confident ::
  "(json \<Rightarrow> json \<Rightarrow> nat) \<Rightarrow> nat \<Rightarrow> user list \<Rightarrow> json \<Rightarrow> string \<Rightarrow> bool" where
  "confident conf \<theta> us probe uid =
     list_ex (\<lambda>u. user_id u = uid \<and> \<theta> \<le> conf probe (facialVector u)) us"

text \<open>A sample score: the number of positions at which two arrays agree.\<close>

fun agreement :: "json \<Rightarrow> json \<Rightarrow> nat" where
  "agreement (JArr xs) (JArr ys) = length (filter (\<lambda>(x, y). x = y) (zip xs ys))"
| "agreement p t = 0"

subsection \<open>Erasing templates\<close>

text \<open>
  What the handlers can see of a template without reading its contents: whether it is
  falsy, whether it is an array, and the length of the array.
\<close>

fun blank :: "json \<Rightarrow> json" where
  "blank (JArr xs) = JArr (replicate (length xs) JNull)"
| "blank j = (if falsy (Some j) then JNull else JBool True)"

definition erase_req :: "variant \<Rightarrow> request \<Rightarrow> request" where
  "erase_req v req =
     req\<lparr>req_body := (\<lambda>k. if k = enroll_field v \<or> k = scan_field v
                             then map_option blank (req_body req k)
                             else req_body req k)\<rparr>"

definition erase_user :: "user \<Rightarrow> user" where
  "erase_user u = u\<lparr>facialVector := blank (facialVector u)\<rparr>"

definition erase_state :: "state \<Rightarrow> state" where
  "erase_state st = st\<lparr>users := map erase_user (users st)\<rparr>"

text \<open>The same for the answers of the database that carry templates.\<close>

definition erase_db :: "db \<Rightarrow> db" where
  "erase_db d = d\<lparr>users_with_templates := map_option (map erase_user) (users_with_templates d)\<rparr>"

section \<open>Sample requests\<close>

definition sample_key :: string where
  "sample_key = ''s3cret''"

definition ones :: "nat \<Rightarrow> json" where
  "ones n = JArr (replicate n (JNum 1))"

definition twos :: "nat \<Rightarrow> json" where
  "twos n = JArr (replicate n (JNum 2))"

definition enroll_req :: "variant \<Rightarrow> json \<Rightarrow> json \<Rightarrow> request" where
  "enroll_req v n t =
     \<lparr>route = Api Enroll, x_api_key = Some sample_key,
      req_body = [''name'' \<mapsto> n, enroll_field v \<mapsto> t],
      query_userId = None, ip = ''10.0.0.7''\<rparr>"

definition scan_req :: "variant \<Rightarrow> json \<Rightarrow> request" where
  "scan_req v t =
     \<lparr>route = Api CheckInOut, x_api_key = Some sample_key,
      req_body = [scan_field v \<mapsto> t],
      query_userId = None, ip = ''10.0.0.7''\<rparr>"

definition report_req :: "string option \<Rightarrow> request" where
  "report_req q =
     \<lparr>route = Api Report, x_api_key = Some sample_key,
      req_body = Map.empty, query_userId = q, ip = ''10.0.0.7''\<rparr>"

text \<open>Alice enrols at time 1 with a template of 120 elements and receives the id 0000002a.\<close>

definition alice_enrolled :: "variant \<Rightarrow> state" where
  "alice_enrolled v =
     run v sample_key init [(\<lparr>now = 1, rand4 = 42\<rparr>, enroll_req v (JStr ''Alice'') (ones 120))]"

text \<open>Alice scans at time 5.\<close>

definition one_scan :: "variant \<Rightarrow> state" where
  "one_scan v =
     run v sample_key (alice_enrolled v) [(\<lparr>now = 5, rand4 = 1\<rparr>, scan_req v (ones 120))]"

text \<open>A second scan follows within the same millisecond.\<close>

definition two_scans :: "variant \<Rightarrow> state" where
  "two_scans v =
     run v sample_key (one_scan v) [(\<lparr>now = 5, rand4 = 2\<rparr>, scan_req v (ones 120))]"

text \<open>A third scan, one millisecond later.\<close>

definition three_scans :: "variant \<Rightarrow> state" where
  "three_scans v =
     run v sample_key (two_scans v) [(\<lparr>now = 6, rand4 = 3\<rparr>, scan_req v (ones 120))]"

text \<open>
  A sample of \<^verbatim>\<open>ObjectId.isValid\<close>: the strings of 24 hexadecimal digits, which it
  accepts. (It rejects a string of 8 characters.)
\<close>

definition hex24 :: "string \<Rightarrow> bool" where
  "hex24 s = (length s = 24 \<and> list_all (\<lambda>c. c \<in> set ''0123456789abcdefABCDEF'') s)"

text \<open>
  Answers of a database that holds Alice alone and no event, and accepts what is saved.
\<close>

definition alice_doc :: user_doc where
  "alice_doc = \<lparr>doc_id = ''65a1b2c3d4e5f60718293a4b'', doc_name = ''Alice'', doc_createdAt = 1\<rparr>"

definition sample_db :: db where
  "sample_db =
     \<lparr>users_with_templates =
        Some [\<lparr>user_id = ''65a1b2c3d4e5f60718293a4b'', user_name = JStr ''Alice'',
               facialVector = ones 120, createdAt = 1\<rparr>],
      user_named = (\<lambda>n. if n = JStr ''Alice'' then Some (Some alice_doc) else Some None),
      new_user = (\<lambda>n. \<lparr>doc_id = ''65a1b2c3d4e5f60718293a4c'', doc_name = ''Bob'',
                          doc_createdAt = 7\<rparr>),
      user_saved = True,
      users_by_name = Some [alice_doc],
      latest_of = (\<lambda>uid. Some None),
      attendance_saved = True,
      user_by_id = (\<lambda>uid. Some (Some alice_doc)),
      sorted_report = (\<lambda>q. Some []),
      readyState = 1\<rparr>"

section \<open>Properties\<close>

subsection \<open>The stable sort, newest first\<close>

lemma insert_by_newest_first:
  "insert_by newest_first x ys = insort_key (\<lambda>r. - int (timestamp r)) x ys"
  by (induction ys) (simp_all add: newest_first_def)

lemma js_sort_newest_first:
  "js_sort newest_first xs = sort_key (\<lambda>r. - int (timestamp r)) xs"
  by (induction xs) (simp_all add: js_sort_def insert_by_newest_first)

lemma set_js_sort: "set (js_sort newest_first xs) = set xs"
  by (simp add: js_sort_newest_first)

lemma length_js_sort: "length (js_sort newest_first xs) = length xs"
  by (simp add: js_sort_newest_first)

lemma js_sort_descending:
  "sorted_wrt (\<lambda>a b. timestamp b \<le> timestamp a) (js_sort newest_first xs)"
proof -
  have "sorted (map (\<lambda>r. - int (timestamp r)) (js_sort newest_first xs))"
    by (simp add: js_sort_newest_first)
  then show ?thesis
    by (simp add: sorted_map)
qed

lemma js_sort_stable:
  "filter (\<lambda>r. timestamp r = t) (js_sort newest_first xs) = filter (\<lambda>r. timestamp r = t) xs"
  using sort_key_stable[of "\<lambda>r. - int (timestamp r)" "- int t" xs]
  by (simp add: js_sort_newest_first)

lemma js_sort_head:
  assumes "js_sort newest_first xs = r # rest"
  shows "r \<in> set xs \<and> (\<forall>x\<in>set xs. timestamp x \<le> timestamp r)"
proof -
  have mem: "set xs = insert r (set rest)"
    using assms set_js_sort[of xs] by simp
  have "sorted_wrt (\<lambda>a b. timestamp b \<le> timestamp a) (r # rest)"
    using assms js_sort_descending[of xs] by simp
  then have "\<forall>x\<in>set rest. timestamp x \<le> timestamp r"
    by simp
  with mem show ?thesis
    by auto
qed

subsection \<open>The last record\<close>

lemma lastRecord_None:
  "(lastRecord records uid = None) = (filter (\<lambda>x. userId x = uid) records = [])"
proof -
  have "(js_sort newest_first (filter (\<lambda>x. userId x = uid) records) = []) =
        (filter (\<lambda>x. userId x = uid) records = [])"
    using length_js_sort[of "filter (\<lambda>x. userId x = uid) records"] by (metis length_0_conv)
  then show ?thesis
    unfolding lastRecord_def
    by (cases "js_sort newest_first (filter (\<lambda>x. userId x = uid) records)") simp_all
qed

lemma lastRecord_Some:
  assumes "lastRecord records uid = Some r"
  shows "r \<in> set (filter (\<lambda>x. userId x = uid) records) \<and>
         (\<forall>x\<in>set (filter (\<lambda>x. userId x = uid) records). timestamp x \<le> timestamp r)"
proof -
  obtain rest where "js_sort newest_first (filter (\<lambda>x. userId x = uid) records) = r # rest"
    using assms by (auto simp: lastRecord_def split: list.splits)
  then show ?thesis
    by (rule js_sort_head)
qed

lemma lastRecord_single_latest:
  assumes l: "l \<in> set (filter (\<lambda>x. userId x = uid) records)"
    and single: "\<forall>x\<in>set (filter (\<lambda>x. userId x = uid) records). x \<noteq> l \<longrightarrow> timestamp x < timestamp l"
  shows "lastRecord records uid = Some l"
proof (cases "lastRecord records uid")
  case None
  then have "filter (\<lambda>x. userId x = uid) records = []"
    by (simp add: lastRecord_None)
  with l show ?thesis
    by simp
next
  case (Some r)
  from lastRecord_Some[OF Some] l have r: "r \<in> set (filter (\<lambda>x. userId x = uid) records)"
    and le: "timestamp l \<le> timestamp r"
    by auto
  have "r = l"
  proof (rule ccontr)
    assume "r \<noteq> l"
    with single r have "timestamp r < timestamp l" by blast
    with le show False by simp
  qed
  with Some show ?thesis by simp
qed

subsection \<open>A successful scan\<close>

lemma check_in_out_200:
  assumes "check_in_out v st e req = (resp, st')" and "status resp = 200"
  shows "\<exists>uid. uid \<noteq> [] \<and>
           st' = st\<lparr>attendanceRecords := attendanceRecords st @
                    [\<lparr>rec_id = toHex4 (rand4 e), userId = uid, timestamp = now e,
                      etype = eventType (lastRecord (attendanceRecords st) uid),
                      device = ip req\<rparr>]\<rparr>"
  using assms
  by (auto simp: check_in_out_def Let_def split: if_splits option.splits json.splits)

lemmas handler_defs = handle_def router_def apiAuth_def enroll_def check_in_out_def report_def
  report_records_def health_def identifyUserFromVector_def identifyUserFromFingerprint_def
  lastRecord_def eventType_def userName_of_def detailedReport_def add_userName_def js_sort_def
  newest_first_def toHex4_def hexdigit_def init_def

lemmas sample_defs = sample_key_def ones_def twos_def enroll_req_def scan_req_def report_req_def

lemma alice_enrolled_eq:
  "alice_enrolled v =
     \<lparr>users = [\<lparr>user_id = ''0000002a'', user_name = JStr ''Alice'',
                 facialVector = ones 120, createdAt = 1\<rparr>],
      attendanceRecords = []\<rparr>"
  by (cases v; simp add: alice_enrolled_def handler_defs sample_defs)

lemma one_scan_eq:
  "one_scan v =
     \<lparr>users = [\<lparr>user_id = ''0000002a'', user_name = JStr ''Alice'',
                 facialVector = ones 120, createdAt = 1\<rparr>],
      attendanceRecords =
        [\<lparr>rec_id = ''00000001'', userId = ''0000002a'', timestamp = 5, etype = IN,
          device = ''10.0.0.7''\<rparr>]\<rparr>"
  by (cases v; simp add: one_scan_def alice_enrolled_eq handler_defs sample_defs)

lemma two_scans_eq:
  "two_scans v =
     \<lparr>users = [\<lparr>user_id = ''0000002a'', user_name = JStr ''Alice'',
                 facialVector = ones 120, createdAt = 1\<rparr>],
      attendanceRecords =
        [\<lparr>rec_id = ''00000001'', userId = ''0000002a'', timestamp = 5, etype = IN,
          device = ''10.0.0.7''\<rparr>,
         \<lparr>rec_id = ''00000002'', userId = ''0000002a'', timestamp = 5, etype = OUT,
          device = ''10.0.0.7''\<rparr>]\<rparr>"
  by (cases v; simp add: two_scans_def one_scan_eq handler_defs sample_defs)

lemma three_scans_eq:
  "three_scans v =
     \<lparr>users = [\<lparr>user_id = ''0000002a'', user_name = JStr ''Alice'',
                 facialVector = ones 120, createdAt = 1\<rparr>],
      attendanceRecords =
        [\<lparr>rec_id = ''00000001'', userId = ''0000002a'', timestamp = 5, etype = IN,
          device = ''10.0.0.7''\<rparr>,
         \<lparr>rec_id = ''00000002'', userId = ''0000002a'', timestamp = 5, etype = OUT,
          device = ''10.0.0.7''\<rparr>,
         \<lparr>rec_id = ''00000003'', userId = ''0000002a'', timestamp = 6, etype = OUT,
          device = ''10.0.0.7''\<rparr>]\<rparr>"
  by (cases v; simp add: three_scans_def two_scans_eq handler_defs sample_defs)

lemma single_latest_iff:
  "single_latest h l = (l \<in> set h \<and> (\<forall>x\<in>set h. x \<noteq> l \<longrightarrow> timestamp x < timestamp l))"
  by (auto simp: single_latest_def list_all_iff)

lemma single_latest_one_type: "single_latest h l \<Longrightarrow> latest_of_one_type h l"
  by (auto simp: single_latest_def latest_of_one_type_def list_all_iff)

lemma lastRecord_one_type:
  assumes "latest_of_one_type (history records uid) l"
  shows "\<exists>r. lastRecord records uid = Some r \<and> etype r = etype l"
proof (cases "lastRecord records uid")
  case None
  then have "history records uid = []"
    by (simp add: lastRecord_None history_def)
  with assms show ?thesis
    by (simp add: latest_of_one_type_def)
next
  case (Some r)
  from lastRecord_Some[OF Some] assms
  have r: "r \<in> set (history records uid)" and le: "timestamp l \<le> timestamp r"
    by (simp_all add: history_def latest_of_one_type_def)
  from assms r have "timestamp r < timestamp l \<or> (timestamp r = timestamp l \<and> etype r = etype l)"
    by (simp add: latest_of_one_type_def list_all_iff)
  with le have "etype r = etype l"
    by auto
  with Some show ?thesis
    by simp
qed

subsection \<open>The type of the next event\<close>

text \<open>
  Where the earlier events of the identity that bear its latest timestamp all have one
  type (as when a single event is the latest), the handler alternates: a scan that is
  answered 200 appends one event \<open>r\<close>, of type IN when the identity has no earlier event,
  and otherwise of the type that differs from the type of those latest events.
\<close>

lemma event_type_of_settled_history:
  assumes "status (fst (check_in_out v st e req)) = 200"
  shows "\<exists>r. attendanceRecords (snd (check_in_out v st e req)) = attendanceRecords st @ [r] \<and>
           (history (attendanceRecords st) (userId r) = [] \<longrightarrow> etype r = IN) \<and>
           (\<forall>l. latest_of_one_type (history (attendanceRecords st) (userId r)) l \<longrightarrow>
                (etype r = IN) = (etype l = OUT) \<and> (etype r = OUT) = (etype l = IN))"
proof -
  have "check_in_out v st e req = (fst (check_in_out v st e req), snd (check_in_out v st e req))"
    by simp
  from check_in_out_200[OF this assms] obtain uid where
    st': "snd (check_in_out v st e req) = st\<lparr>attendanceRecords := attendanceRecords st @
                    [\<lparr>rec_id = toHex4 (rand4 e), userId = uid, timestamp = now e,
                      etype = eventType (lastRecord (attendanceRecords st) uid),
                      device = ip req\<rparr>]\<rparr>"
    by blast
  define r where "r = \<lparr>rec_id = toHex4 (rand4 e), userId = uid, timestamp = now e,
                      etype = eventType (lastRecord (attendanceRecords st) uid),
                      device = ip req\<rparr>"
  have uid: "userId r = uid" and ty: "etype r = eventType (lastRecord (attendanceRecords st) uid)"
    by (simp_all add: r_def)
  have app: "attendanceRecords (snd (check_in_out v st e req)) = attendanceRecords st @ [r]"
    by (simp add: st' r_def)
  have empty: "history (attendanceRecords st) uid = [] \<Longrightarrow> etype r = IN"
    using lastRecord_None[of "attendanceRecords st" uid] by (simp add: ty eventType_def history_def)
  have latest: "(etype r = IN) = (etype l = OUT) \<and> (etype r = OUT) = (etype l = IN)"
    if "latest_of_one_type (history (attendanceRecords st) uid) l" for l
  proof -
    from lastRecord_one_type[OF that] obtain r' where
      "lastRecord (attendanceRecords st) uid = Some r'" and "etype r' = etype l"
      by blast
    then show ?thesis
      by (cases "etype l") (simp_all add: ty eventType_def)
  qed
  from app empty latest show ?thesis
    unfolding uid[symmetric] by blast
qed

text \<open>
  C1 fails on the code where timestamps tie. After the enrollment of Alice and two scans
  in one millisecond her history is IN (id 00000001), OUT (id 00000002), both at time 5.
  Her most recent event is the OUT: it was appended last, and it is the latest by timestamp
  and then by id descending. The next scan, at time 6, is answered 200 and recorded as OUT
  again, in both in-memory variants: the stable sort leaves the IN first, and the handler
  reads that one.
\<close>

theorem tied_timestamps_next_event:
  "map (\<lambda>r. (rec_id r, timestamp r, etype r)) (history (attendanceRecords (two_scans v)) ''0000002a'')
     = [(''00000001'', 5, IN), (''00000002'', 5, OUT)] \<and>
   map_option etype (spec_latest (history (attendanceRecords (two_scans v)) ''0000002a''))
     = Some OUT \<and>
   check_in_out v (two_scans v) \<lparr>now = 6, rand4 = 3\<rparr> (scan_req v (ones 120))
     = (\<lparr>status = 200, body = Recorded (JStr ''Alice'') OUT 6\<rparr>, three_scans v)"
  by (cases v; simp add: two_scans_eq three_scans_eq history_def newer_def handler_defs sample_defs)

subsection \<open>Short probes\<close>

lemma check_in_out_400:
  "(status (fst (check_in_out v st e req)) = 400) =
     (\<forall>xs. req_body req (scan_field v) = Some (JArr xs) \<longrightarrow> xs = [])"
proof (cases "req_body req (scan_field v)")
  case None
  then show ?thesis
    by (simp add: check_in_out_def)
next
  case (Some j)
  show ?thesis
  proof (cases j)
    case (JArr xs)
    with Some show ?thesis
      by (simp add: check_in_out_def Let_def split: option.splits)
  qed (simp_all add: Some check_in_out_def Let_def)
qed

lemma check_in_out_mongoose_400:
  "(fst (check_in_out_mongoose d e req) = 400) =
     (\<forall>xs. req_body req ''incomingTemplate'' = Some (JArr xs) \<longrightarrow> xs = [])"
proof (cases "req_body req ''incomingTemplate''")
  case None
  then show ?thesis
    by (simp add: check_in_out_mongoose_def)
next
  case (Some j)
  show ?thesis
  proof (cases j)
    case (JArr xs)
    with Some show ?thesis
      by (simp add: check_in_out_mongoose_def Let_def split: option.splits)
  qed (simp_all add: Some check_in_out_mongoose_def Let_def)
qed

text \<open>
  C3, as the code has it. A scan that passes the key check is answered 400 exactly when
  its probe is not a non-empty array (it is missing, falsy, not an array, or an empty
  array). With a non-empty array shorter than the floor of the variant (100 elements
  facial, 50 fingerprint) it is answered 404 "not recognized" and the state stays as it
  was, the resolver answering null for such a probe whoever is enrolled; and 404 "not
  recognized" is also what a scan with a non-empty array receives when nobody is enrolled.
  The same holds of the mongoose variant with the floor of 50 elements, whatever the
  database would answer.
\<close>

theorem short_probe_unrecognized:
  assumes "apiAuth key req"
  shows
    "(route req = Api CheckInOut \<longrightarrow>
        ((status (fst (handle v key st e req)) = 400) =
           (\<forall>xs. req_body req (scan_field v) = Some (JArr xs) \<longrightarrow> xs = [])) \<and>
        (\<forall>xs. req_body req (scan_field v) = Some (JArr xs) \<longrightarrow> xs \<noteq> [] \<longrightarrow>
              length xs < floor_of v \<longrightarrow>
                handle v key st e req = (\<lparr>status = 404, body = NotRecognized\<rparr>, st) \<and>
                identify v us xs = None)) \<and>
     (apiAuth key req' \<longrightarrow> route req' = Api CheckInOut \<longrightarrow>
      req_body req' (scan_field v) = Some (JArr zs) \<longrightarrow> zs \<noteq> [] \<longrightarrow> users st' = [] \<longrightarrow>
        fst (handle v key st' e' req') = \<lparr>status = 404, body = NotRecognized\<rparr>) \<and>
     ((fst (handle_mongoose isValid key d e PostCheckInOut req) = 400) =
        (\<forall>xs. req_body req ''incomingTemplate'' = Some (JArr xs) \<longrightarrow> xs = [])) \<and>
     (\<forall>xs. req_body req ''incomingTemplate'' = Some (JArr xs) \<longrightarrow> xs \<noteq> [] \<longrightarrow>
           length xs < 50 \<longrightarrow>
             handle_mongoose isValid key d e PostCheckInOut req = (404, M_NotRecognized)) \<and>
     (req_body req ''incomingTemplate'' = Some (JArr zs) \<longrightarrow> zs \<noteq> [] \<longrightarrow>
      users_with_templates d = Some [] \<longrightarrow>
        handle_mongoose isValid key d e PostCheckInOut req = (404, M_NotRecognized))"
proof -
  have a: "(status (fst (handle v key st e req)) = 400) =
           (\<forall>xs. req_body req (scan_field v) = Some (JArr xs) \<longrightarrow> xs = [])"
    if "route req = Api CheckInOut"
    using that assms check_in_out_400[of v st e req] by (simp add: handle_def router_def)
  have b: "handle v key st e req = (\<lparr>status = 404, body = NotRecognized\<rparr>, st) \<and>
           identify v us xs = None"
    if "route req = Api CheckInOut" "req_body req (scan_field v) = Some (JArr xs)" "xs \<noteq> []"
      "length xs < floor_of v" for xs
    using that assms
    by (cases v) (simp_all add: handle_def router_def check_in_out_def identifyUserFromVector_def
        identifyUserFromFingerprint_def)
  have c: "fst (handle v key st' e' req') = \<lparr>status = 404, body = NotRecognized\<rparr>"
    if "apiAuth key req'" "route req' = Api CheckInOut"
      "req_body req' (scan_field v) = Some (JArr zs)" "zs \<noteq> []" "users st' = []"
    using that
    by (cases v) (simp_all add: handle_def router_def check_in_out_def identifyUserFromVector_def
        identifyUserFromFingerprint_def)
  have m1: "(fst (handle_mongoose isValid key d e PostCheckInOut req) = 400) =
        (\<forall>xs. req_body req ''incomingTemplate'' = Some (JArr xs) \<longrightarrow> xs = [])"
    using assms check_in_out_mongoose_400[of d e req] by (simp add: handle_mongoose_def)
  have m2: "handle_mongoose isValid key d e PostCheckInOut req = (404, M_NotRecognized)"
    if "req_body req ''incomingTemplate'' = Some (JArr xs)" "xs \<noteq> []" "length xs < 50" for xs
    using that assms
    by (simp add: handle_mongoose_def check_in_out_mongoose_def
        identifyUserFromFingerprint_async_def)
  have m3: "handle_mongoose isValid key d e PostCheckInOut req = (404, M_NotRecognized)"
    if "req_body req ''incomingTemplate'' = Some (JArr zs)" "zs \<noteq> []"
      "users_with_templates d = Some []"
    using that assms
    by (simp add: handle_mongoose_def check_in_out_mongoose_def
        identifyUserFromFingerprint_async_def)
  from a b c m1 m2 m3 show ?thesis
    by blast
qed

text \<open>A probe of 10 elements, after Alice has enrolled and against the sample database.\<close>

theorem short_probe_unrecognized_witness:
  "apiAuth sample_key (scan_req Facial (ones 10)) \<and>
   route (scan_req Facial (ones 10)) = Api CheckInOut \<and>
   req_body (scan_req Facial (ones 10)) (scan_field Facial) = Some (JArr (replicate 10 (JNum 1))) \<and>
   replicate 10 (JNum 1) \<noteq> [] \<and>
   length (replicate 10 (JNum 1)) < floor_of Facial \<and>
   handle Facial sample_key (alice_enrolled Facial) \<lparr>now = 7, rand4 = 9\<rparr> (scan_req Facial (ones 10))
     = (\<lparr>status = 404, body = NotRecognized\<rparr>, alice_enrolled Facial) \<and>
   status (fst (handle Facial sample_key (alice_enrolled Facial) \<lparr>now = 7, rand4 = 9\<rparr>
                  (scan_req Facial (ones 10)))) \<noteq> 400 \<and>
   apiAuth sample_key (scan_req Fingerprint (ones 10)) \<and>
   req_body (scan_req Fingerprint (ones 10)) ''incomingTemplate''
     = Some (JArr (replicate 10 (JNum 1))) \<and>
   length (replicate 10 (JNum 1)) < 50 \<and>
   handle_mongoose hex24 sample_key sample_db \<lparr>now = 7, rand4 = 9\<rparr> PostCheckInOut
       (scan_req Fingerprint (ones 10))
     = (404, M_NotRecognized)"
proof -
  have h1: "apiAuth sample_key (scan_req Facial (ones 10))"
    and h2: "route (scan_req Facial (ones 10)) = Api CheckInOut"
    and h3: "req_body (scan_req Facial (ones 10)) (scan_field Facial) = Some (JArr (replicate 10 (JNum 1)))"
    and h4: "replicate 10 (JNum 1) \<noteq> []"
    and h5: "length (replicate 10 (JNum 1)) < floor_of Facial"
    and g1: "apiAuth sample_key (scan_req Fingerprint (ones 10))"
    and g3: "req_body (scan_req Fingerprint (ones 10)) ''incomingTemplate''
               = Some (JArr (replicate 10 (JNum 1)))"
    and g5: "length (replicate 10 (JNum 1)) < 50"
    by (simp_all add: apiAuth_def sample_defs)
  from short_probe_unrecognized[OF h1, where v = Facial and st = "alice_enrolled Facial"
      and e = "\<lparr>now = 7, rand4 = 9\<rparr>"] h2 h3 h4 h5
  have r1: "handle Facial sample_key (alice_enrolled Facial) \<lparr>now = 7, rand4 = 9\<rparr> (scan_req Facial (ones 10))
     = (\<lparr>status = 404, body = NotRecognized\<rparr>, alice_enrolled Facial)"
    by blast
  then have r2: "status (fst (handle Facial sample_key (alice_enrolled Facial) \<lparr>now = 7, rand4 = 9\<rparr>
                  (scan_req Facial (ones 10)))) \<noteq> 400"
    by simp
  from short_probe_unrecognized[OF g1, where isValid = hex24 and d = sample_db
      and e = "\<lparr>now = 7, rand4 = 9\<rparr>"] g3 h4 g5
  have r3: "handle_mongoose hex24 sample_key sample_db \<lparr>now = 7, rand4 = 9\<rparr> PostCheckInOut
       (scan_req Fingerprint (ones 10)) = (404, M_NotRecognized)"
    by blast
  from h1 h2 h3 h4 h5 r1 r2 g1 g3 g5 r3 show ?thesis
    by (intro conjI)
qed

text \<open>
  C3 as stated fails: with Alice enrolled, a scan with a probe of 10 elements is answered
  404, not 400, in both in-memory variants and in the mongoose variant.
\<close>

theorem short_probe_counterexample:
  "status (fst (handle Facial sample_key (alice_enrolled Facial) \<lparr>now = 7, rand4 = 9\<rparr>
                  (scan_req Facial (ones 10)))) = 404 \<and>
   status (fst (handle Fingerprint sample_key (alice_enrolled Fingerprint) \<lparr>now = 7, rand4 = 9\<rparr>
                  (scan_req Fingerprint (ones 10)))) = 404 \<and>
   fst (handle_mongoose hex24 sample_key sample_db \<lparr>now = 7, rand4 = 9\<rparr> PostCheckInOut
          (scan_req Fingerprint (ones 10))) = 404"
  by (simp add: alice_enrolled_eq handler_defs sample_defs handle_mongoose_def
      check_in_out_mongoose_def identifyUserFromFingerprint_async_def)

subsection \<open>The key check and the health route\<close>

text \<open>
  C6. A request to one of the three routes under \<^verbatim>\<open>/api/v1\<close> whose
  \<^verbatim>\<open>x-api-key\<close> header is not the key of the server is answered 401, whatever else it
  carries, and the state stays as it was; \<^verbatim>\<open>GET /health\<close> is answered 200 whatever
  the header, and changes nothing.
\<close>

theorem key_check_closed_health_open:
  "(x_api_key req \<noteq> Some key \<longrightarrow> route req = Api r \<longrightarrow>
      handle v key st e req = (\<lparr>status = 401, body = Unauthorized\<rparr>, st)) \<and>
   (route req = Health \<longrightarrow>
      handle v key st e req = (\<lparr>status = 200, body = HealthOK (length (users st))\<rparr>, st))"
  by (auto simp: handle_def router_def apiAuth_def health_def split: option.splits)

text \<open>A scan with a guessed key, and a health check with no key.\<close>

theorem key_check_closed_health_open_witness:
  "x_api_key ((scan_req Facial (ones 120))\<lparr>x_api_key := Some ''guess''\<rparr>) \<noteq> Some sample_key \<and>
   route ((scan_req Facial (ones 120))\<lparr>x_api_key := Some ''guess''\<rparr>) = Api CheckInOut \<and>
   handle Facial sample_key (alice_enrolled Facial) \<lparr>now = 7, rand4 = 9\<rparr>
     ((scan_req Facial (ones 120))\<lparr>x_api_key := Some ''guess''\<rparr>)
     = (\<lparr>status = 401, body = Unauthorized\<rparr>, alice_enrolled Facial) \<and>
   route ((report_req None)\<lparr>route := Health, x_api_key := None\<rparr>) = Health \<and>
   handle Facial sample_key (alice_enrolled Facial) \<lparr>now = 7, rand4 = 9\<rparr>
     ((report_req None)\<lparr>route := Health, x_api_key := None\<rparr>)
     = (\<lparr>status = 200, body = HealthOK 1\<rparr>, alice_enrolled Facial)"
proof -
  have h1: "x_api_key ((scan_req Facial (ones 120))\<lparr>x_api_key := Some ''guess''\<rparr>) \<noteq> Some sample_key"
    and h2: "route ((scan_req Facial (ones 120))\<lparr>x_api_key := Some ''guess''\<rparr>) = Api CheckInOut"
    and h3: "route ((report_req None)\<lparr>route := Health, x_api_key := None\<rparr>) = Health"
    by (simp_all add: sample_defs)
  have len: "length (users (alice_enrolled Facial)) = 1"
    by (simp add: alice_enrolled_eq)
  from h1 h2 h3 len
    key_check_closed_health_open[of "(scan_req Facial (ones 120))\<lparr>x_api_key := Some ''guess''\<rparr>"
      sample_key CheckInOut Facial "alice_enrolled Facial" "\<lparr>now = 7, rand4 = 9\<rparr>"]
    key_check_closed_health_open[of "(report_req None)\<lparr>route := Health, x_api_key := None\<rparr>"
      sample_key CheckInOut Facial "alice_enrolled Facial" "\<lparr>now = 7, rand4 = 9\<rparr>"]
  show ?thesis
    by simp
qed

subsection \<open>One hundred elements\<close>

text \<open>
  C9. In the facial variant the resolver answers null for every vector of exactly 100
  elements, whoever is enrolled, and the scan that carries it past the key check is
  answered 404 "not recognized"; with one element more the first enrolled user is matched.
\<close>

theorem facial_length_100:
  assumes "length xs = 100"
  shows "identifyUserFromVector us xs = None \<and>
         (apiAuth key req \<longrightarrow> route req = Api CheckInOut \<longrightarrow>
          req_body req ''incomingVector'' = Some (JArr xs) \<longrightarrow>
            handle Facial key st e req = (\<lparr>status = 404, body = NotRecognized\<rparr>, st)) \<and>
         identifyUserFromVector (u # us) (x # xs) = Some (user_id u)"
  using assms
  by (auto simp: handle_def router_def identifyUserFromVector_def check_in_out_def
      split: list.splits)

text \<open>A probe of 100 elements after Alice has enrolled.\<close>

theorem facial_length_100_witness:
  "length (replicate 100 (JNum 1)) = 100 \<and>
   identifyUserFromVector (users (alice_enrolled Facial)) (replicate 100 (JNum 1)) = None \<and>
   handle Facial sample_key (alice_enrolled Facial) \<lparr>now = 7, rand4 = 9\<rparr> (scan_req Facial (ones 100))
     = (\<lparr>status = 404, body = NotRecognized\<rparr>, alice_enrolled Facial)"
proof -
  have h: "length (replicate 100 (JNum 1)) = 100"
    by simp
  have "apiAuth sample_key (scan_req Facial (ones 100))"
    and "route (scan_req Facial (ones 100)) = Api CheckInOut"
    and "req_body (scan_req Facial (ones 100)) ''incomingVector'' = Some (JArr (replicate 100 (JNum 1)))"
    by (simp_all add: apiAuth_def sample_defs)
  with h facial_length_100[OF h, of "users (alice_enrolled Facial)" sample_key
      "scan_req Facial (ones 100)" "alice_enrolled Facial" "\<lparr>now = 7, rand4 = 9\<rparr>"]
  show ?thesis
    by simp
qed

subsection \<open>Enrollment\<close>




subsection \<open>No threshold\<close>

text \<open>
  C4, as the code has it. The resolver applies no confidence and no threshold: for every
  array of at least 50 elements (fingerprint) or of more than 100 elements (facial),
  whatever its elements and whatever the stored templates, it names the first user; and a
  user it names is always the first one. The asynchronous resolver of the mongoose variant
  does the same with the users that the database returns.
\<close>

theorem resolver_first_user:
  "(50 \<le> length xs \<longrightarrow> identifyUserFromFingerprint (u # us) xs = Some (user_id u)) \<and>
   (100 < length xs \<longrightarrow> identifyUserFromVector (u # us) xs = Some (user_id u)) \<and>
   (identify v us' p = Some uid \<longrightarrow> (\<exists>u' rest. us' = u' # rest \<and> uid = user_id u')) \<and>
   (50 \<le> length xs \<longrightarrow> users_with_templates d = Some (u # us) \<longrightarrow>
      identifyUserFromFingerprint_async d xs = Some (Some (user_id u))) \<and>
   (identifyUserFromFingerprint_async d p = Some (Some uid) \<longrightarrow>
      (\<exists>u' rest. users_with_templates d = Some (u' # rest) \<and> uid = user_id u'))"
  by (cases v) (auto simp: identifyUserFromVector_def identifyUserFromFingerprint_def
      identifyUserFromFingerprint_async_def split: if_splits list.splits option.splits)

text \<open>A probe of 120 twos against Alice, whose template is 120 ones.\<close>

theorem resolver_first_user_witness:
  "50 \<le> length (replicate 120 (JNum 2)) \<and> 100 < length (replicate 120 (JNum 2)) \<and>
   identifyUserFromFingerprint (users (alice_enrolled Fingerprint)) (replicate 120 (JNum 2))
     = Some ''0000002a'' \<and>
   identifyUserFromVector (users (alice_enrolled Facial)) (replicate 120 (JNum 2))
     = Some ''0000002a'' \<and>
   users_with_templates sample_db =
     Some [\<lparr>user_id = ''65a1b2c3d4e5f60718293a4b'', user_name = JStr ''Alice'',
            facialVector = ones 120, createdAt = 1\<rparr>] \<and>
   identifyUserFromFingerprint_async sample_db (replicate 120 (JNum 2))
     = Some (Some ''65a1b2c3d4e5f60718293a4b'')"
proof -
  have h: "50 \<le> length (replicate 120 (JNum 2))" "100 < length (replicate 120 (JNum 2))"
    by simp_all
  have d: "users_with_templates sample_db =
     Some [\<lparr>user_id = ''65a1b2c3d4e5f60718293a4b'', user_name = JStr ''Alice'',
            facialVector = ones 120, createdAt = 1\<rparr>]"
    by (simp add: sample_db_def)
  from h d resolver_first_user[of "replicate 120 (JNum 2)"
      "\<lparr>user_id = ''0000002a'', user_name = JStr ''Alice'', facialVector = ones 120, createdAt = 1\<rparr>" "[]"]
    resolver_first_user[where xs = "replicate 120 (JNum 2)" and d = sample_db and us = "[]"
      and u = "\<lparr>user_id = ''65a1b2c3d4e5f60718293a4b'', user_name = JStr ''Alice'',
                facialVector = ones 120, createdAt = 1\<rparr>"]
  show ?thesis
    by (simp add: alice_enrolled_eq)
qed

text \<open>
  C4 as stated fails for a Matcher that scores by agreement, with threshold 1: the probe of
  120 twos agrees with the template of Alice at no position, and both resolvers name her.
\<close>

theorem resolver_threshold_counterexample:
  "identifyUserFromFingerprint (users (alice_enrolled Fingerprint)) (replicate 120 (JNum 2))
     = Some ''0000002a'' \<and>
   identifyUserFromVector (users (alice_enrolled Facial)) (replicate 120 (JNum 2))
     = Some ''0000002a'' \<and>
   agreement (twos 120) (ones 120) = 0 \<and>
   \<not> confident agreement 1 (users (alice_enrolled Fingerprint)) (twos 120) ''0000002a'' \<and>
   \<not> confident agreement 1 (users (alice_enrolled Facial)) (twos 120) ''0000002a''"
  by (simp add: alice_enrolled_eq confident_def identifyUserFromFingerprint_def
      identifyUserFromVector_def ones_def twos_def)

subsection \<open>Reports on an unknown identity\<close>

text \<open>
  C8, as the code has it. In the in-memory variants a report request that passes the key
  check with a non-empty \<^verbatim>\<open>userId\<close> that no user has is answered 404. The report handler of
  the mongoose variant never answers 404: for a non-empty \<^verbatim>\<open>userId\<close> it answers 200 with
  whatever the query finds when the id is a valid ObjectId, and 400 when it is not.
\<close>

theorem report_unknown_identity:
  "(apiAuth key req \<longrightarrow> route req = Api Report \<longrightarrow> query_userId req = Some uid \<longrightarrow> uid \<noteq> [] \<longrightarrow>
    list_all (\<lambda>u. user_id u \<noteq> uid) (users st) \<longrightarrow>
      handle v key st e req = (\<lparr>status = 404, body = UserNotFound uid\<rparr>, st)) \<and>
   fst (report_mongoose isValid find_sorted q) \<noteq> 404 \<and>
   (uid \<noteq> [] \<longrightarrow> isValid uid \<longrightarrow> find_sorted (Some uid) = Some rows \<longrightarrow>
      report_mongoose isValid find_sorted (Some uid) = (200, ReportM (length rows) rows)) \<and>
   (uid \<noteq> [] \<longrightarrow> \<not> isValid uid \<longrightarrow>
      report_mongoose isValid find_sorted (Some uid) = (400, InvalidIdFormat))"
  by (auto simp: handle_def router_def report_def report_mongoose_def Let_def list_all_iff list_ex_iff
      split: option.splits)

text \<open>An id that nobody has, in both shapes, with Alice enrolled and an empty collection.\<close>

theorem report_unknown_identity_witness:
  "apiAuth sample_key (report_req (Some ''0000beef'')) \<and>
   route (report_req (Some ''0000beef'')) = Api Report \<and>
   query_userId (report_req (Some ''0000beef'')) = Some ''0000beef'' \<and>
   ''0000beef'' \<noteq> [] \<and>
   list_all (\<lambda>u. user_id u \<noteq> ''0000beef'') (users (alice_enrolled Facial)) \<and>
   handle Facial sample_key (alice_enrolled Facial) \<lparr>now = 7, rand4 = 9\<rparr>
       (report_req (Some ''0000beef''))
     = (\<lparr>status = 404, body = UserNotFound ''0000beef''\<rparr>, alice_enrolled Facial) \<and>
   hex24 ''0123456789abcdef01234567'' \<and>
   report_mongoose hex24 (\<lambda>q. Some ([] :: attendance list)) (Some ''0123456789abcdef01234567'')
     = (200, ReportM 0 []) \<and>
   \<not> hex24 ''0000beef'' \<and>
   report_mongoose hex24 (\<lambda>q. Some ([] :: attendance list)) (Some ''0000beef'')
     = (400, InvalidIdFormat)"
proof -
  have h: "apiAuth sample_key (report_req (Some ''0000beef''))"
    "route (report_req (Some ''0000beef'')) = Api Report"
    "query_userId (report_req (Some ''0000beef'')) = Some ''0000beef''"
    "''0000beef'' \<noteq> []"
    "list_all (\<lambda>u. user_id u \<noteq> ''0000beef'') (users (alice_enrolled Facial))"
    "hex24 ''0123456789abcdef01234567''"
    "\<not> hex24 ''0000beef''"
    "''0123456789abcdef01234567'' \<noteq> []"
    by (simp_all add: apiAuth_def sample_defs alice_enrolled_eq hex24_def)
  from h
    report_unknown_identity[of sample_key "report_req (Some ''0000beef'')" "''0000beef''"
      "alice_enrolled Facial" Facial "\<lparr>now = 7, rand4 = 9\<rparr>" hex24
      "\<lambda>q. Some ([] :: attendance list)" None "[]"]
    report_unknown_identity[of sample_key "report_req (Some ''0000beef'')" "''0123456789abcdef01234567''"
      "alice_enrolled Facial" Facial "\<lparr>now = 7, rand4 = 9\<rparr>" hex24
      "\<lambda>q. Some ([] :: attendance list)" None "[]"]
  show ?thesis
    by simp
qed

text \<open>
  C8 as stated fails. In the mongoose variant a well-formed id that nobody has is answered
  200 (with an empty collection the report is empty), and an ill-formed one 400. In the
  in-memory variants an empty \<^verbatim>\<open>userId\<close> is no filter: the answer is 200.
\<close>

theorem report_unknown_identity_counterexample:
  "hex24 ''0123456789abcdef01234567'' \<and>
   fst (report_mongoose hex24 (\<lambda>q. Some ([] :: attendance list)) (Some ''0123456789abcdef01234567''))
     = 200 \<and>
   fst (report_mongoose hex24 (\<lambda>q. Some ([] :: attendance list)) (Some ''0000beef'')) = 400 \<and>
   status (fst (handle Facial sample_key (alice_enrolled Facial) \<lparr>now = 7, rand4 = 9\<rparr>
                  (report_req (Some '''')))) = 200"
  by (simp add: hex24_def report_mongoose_def alice_enrolled_eq handler_defs sample_defs)

text \<open>In the in-memory variants an empty \<^verbatim>\<open>userId\<close> is no filter at all.\<close>

lemma report_empty_filter:
  "query_userId req = Some [] \<Longrightarrow> report st req = report st (req\<lparr>query_userId := None\<rparr>)"
  by (simp add: report_def report_records_def)


subsection \<open>The order of the report\<close>

lemma handle_ReportOK:
  assumes "body (fst (handle v key st e req)) = ReportOK n rows"
  shows "rows = detailedReport (users st) (report_records st req) \<and> n = length rows"
  using assms
  by (auto simp: handle_def router_def enroll_def check_in_out_def report_def health_def Let_def
      split: route.splits api_route.splits if_splits option.splits json.splits)

lemma report_records_filter:
  "report_records st req =
     filter (\<lambda>r. query_userId req = None \<or> query_userId req = Some [] \<or>
                  query_userId req = Some (userId r))
       (attendanceRecords st)"
  by (cases "query_userId req") (auto simp: report_records_def intro: filter_cong)

lemma report_mongoose_ReportM:
  assumes "report_mongoose isValid find_sorted q = (code, ReportM n rows)"
  shows "n = length rows \<and>
         find_sorted (case q of None \<Rightarrow> None | Some uid \<Rightarrow> if uid = [] then None else Some uid)
           = Some rows"
  using assms
  by (auto simp: report_mongoose_def Let_def split: option.splits if_splits)

text \<open>
  C5, as the code has it. In the in-memory variants a response that carries a report
  counts its rows; the rows are in descending order of timestamp; and the rows of any one
  timestamp are the records of the ledger with that timestamp (those of the identity asked
  for, when the request names one), in the order in which the ledger holds them, each with
  its user name. The id plays no part. In the mongoose variant the report is the list that
  the database answers to the query of the handler, as it is.
\<close>

theorem report_order:
  "(body (fst (handle v key st e req)) = ReportOK n rows \<longrightarrow>
      n = length rows \<and>
      sorted_wrt (\<lambda>a b. timestamp b \<le> timestamp a) rows \<and>
      (\<forall>t. filter (\<lambda>r. timestamp r = t) rows =
            map (add_userName (users st))
              (filter (\<lambda>r. timestamp r = t \<and>
                           (query_userId req = None \<or> query_userId req = Some [] \<or>
                            query_userId req = Some (userId r)))
                 (attendanceRecords st)))) \<and>
   (handle_mongoose isValid key d e GetReport req = (code, M_Report (ReportM n' rows')) \<longrightarrow>
      n' = length rows' \<and>
      sorted_report d (case query_userId req of
                         None \<Rightarrow> None
                       | Some uid \<Rightarrow> if uid = [] then None else Some uid) = Some rows')"
proof -
  have mem: "n = length rows \<and>
      sorted_wrt (\<lambda>a b. timestamp b \<le> timestamp a) rows \<and>
      (\<forall>t. filter (\<lambda>r. timestamp r = t) rows =
            map (add_userName (users st))
              (filter (\<lambda>r. timestamp r = t \<and>
                           (query_userId req = None \<or> query_userId req = Some [] \<or>
                            query_userId req = Some (userId r)))
                 (attendanceRecords st)))"
    if h: "body (fst (handle v key st e req)) = ReportOK n rows"
  proof -
    from handle_ReportOK[OF h]
    have rows: "rows = js_sort newest_first (map (add_userName (users st)) (report_records st req))"
      and n: "n = length rows"
      by (simp_all add: detailedReport_def)
    have ts: "timestamp (add_userName (users st) r) = timestamp r" for r
      by (simp add: add_userName_def)
    have "filter (\<lambda>r. timestamp r = t) rows =
            map (add_userName (users st))
              (filter (\<lambda>r. timestamp r = t \<and>
                           (query_userId req = None \<or> query_userId req = Some [] \<or>
                            query_userId req = Some (userId r)))
                 (attendanceRecords st))" for t
      unfolding rows js_sort_stable report_records_filter
      by (simp add: filter_map comp_def ts conj_commute)
    with n show ?thesis
      unfolding rows by (simp add: js_sort_descending)
  qed
  have mon: "n' = length rows' \<and>
      sorted_report d (case query_userId req of
                         None \<Rightarrow> None
                       | Some uid \<Rightarrow> if uid = [] then None else Some uid) = Some rows'"
    if h: "handle_mongoose isValid key d e GetReport req = (code, M_Report (ReportM n' rows'))"
  proof -
    from h have "report_mongoose isValid (sorted_report d) (query_userId req) = (code, ReportM n' rows')"
      by (auto simp: handle_mongoose_def split: if_splits prod.splits)
    then show ?thesis
      by (rule report_mongoose_ReportM)
  qed
  from mem mon show ?thesis
    by blast
qed

text \<open>The report after the two scans of Alice at time 5, and the report of an empty collection.\<close>

theorem report_order_witness:
  "body (fst (handle Facial sample_key (two_scans Facial) \<lparr>now = 9, rand4 = 0\<rparr> (report_req None)))
     = ReportOK 2
         [\<lparr>rec_id = ''00000001'', userId = ''0000002a'', timestamp = 5, etype = IN,
           device = ''10.0.0.7'', userName = JStr ''Alice''\<rparr>,
          \<lparr>rec_id = ''00000002'', userId = ''0000002a'', timestamp = 5, etype = OUT,
           device = ''10.0.0.7'', userName = JStr ''Alice''\<rparr>] \<and>
   sorted_wrt (\<lambda>a b. timestamp b \<le> timestamp a)
         [\<lparr>rec_id = ''00000001'', userId = ''0000002a'', timestamp = 5, etype = IN,
           device = ''10.0.0.7'', userName = JStr ''Alice''\<rparr>,
          \<lparr>rec_id = ''00000002'', userId = ''0000002a'', timestamp = 5, etype = OUT,
           device = ''10.0.0.7'', userName = JStr ''Alice''\<rparr>] \<and>
   handle_mongoose hex24 sample_key sample_db \<lparr>now = 9, rand4 = 0\<rparr> GetReport (report_req None)
     = (200, M_Report (ReportM 0 [])) \<and>
   sorted_report sample_db None = Some []"
proof -
  have h: "body (fst (handle Facial sample_key (two_scans Facial) \<lparr>now = 9, rand4 = 0\<rparr> (report_req None)))
     = ReportOK 2
         [\<lparr>rec_id = ''00000001'', userId = ''0000002a'', timestamp = 5, etype = IN,
           device = ''10.0.0.7'', userName = JStr ''Alice''\<rparr>,
          \<lparr>rec_id = ''00000002'', userId = ''0000002a'', timestamp = 5, etype = OUT,
           device = ''10.0.0.7'', userName = JStr ''Alice''\<rparr>]"
    by (simp add: two_scans_eq handler_defs sample_defs)
  have m: "handle_mongoose hex24 sample_key sample_db \<lparr>now = 9, rand4 = 0\<rparr> GetReport (report_req None)
     = (200, M_Report (ReportM 0 []))"
    by (simp add: handle_mongoose_def report_mongoose_def apiAuth_def sample_db_def sample_defs)
  have q: "query_userId (report_req None) = None"
    by (simp add: report_req_def)
  from report_order[where v = Facial and key = sample_key and st = "two_scans Facial"
      and e = "\<lparr>now = 9, rand4 = 0\<rparr>" and req = "report_req None" and isValid = hex24
      and d = sample_db and code = 200 and n' = 0 and rows' = "[]"] h m q
  have "sorted_wrt (\<lambda>a b. timestamp b \<le> timestamp a)
         [\<lparr>rec_id = ''00000001'', userId = ''0000002a'', timestamp = 5, etype = IN,
           device = ''10.0.0.7'', userName = JStr ''Alice''\<rparr>,
          \<lparr>rec_id = ''00000002'', userId = ''0000002a'', timestamp = 5, etype = OUT,
           device = ''10.0.0.7'', userName = JStr ''Alice''\<rparr>]"
    and "sorted_report sample_db None = Some []"
    by simp_all
  with h m show ?thesis
    by (intro conjI)
qed

text \<open>
  C5 as stated fails: the two events of time 5 are listed with id 00000001 before id
  00000002, which is ascending.
\<close>

theorem report_order_counterexample:
  "body (fst (handle Facial sample_key (two_scans Facial) \<lparr>now = 9, rand4 = 0\<rparr> (report_req None)))
     = ReportOK 2
         [\<lparr>rec_id = ''00000001'', userId = ''0000002a'', timestamp = 5, etype = IN,
           device = ''10.0.0.7'', userName = JStr ''Alice''\<rparr>,
          \<lparr>rec_id = ''00000002'', userId = ''0000002a'', timestamp = 5, etype = OUT,
           device = ''10.0.0.7'', userName = JStr ''Alice''\<rparr>] \<and>
   \<not> spec_listing_order
         [\<lparr>rec_id = ''00000001'', userId = ''0000002a'', timestamp = 5, etype = IN,
           device = ''10.0.0.7'', userName = JStr ''Alice''\<rparr>,
          \<lparr>rec_id = ''00000002'', userId = ''0000002a'', timestamp = 5, etype = OUT,
           device = ''10.0.0.7'', userName = JStr ''Alice''\<rparr>]"
  by (simp add: two_scans_eq spec_listing_order_def newer_def handler_defs sample_defs)

subsection \<open>Alternation\<close>

lemma alternates_counts:
  "alternates x ts \<Longrightarrow>
     count_list ts OUT \<le> count_list ts IN + (if x = OUT then 1 else 0)"
proof (induction ts arbitrary: x)
  case Nil
  show ?case by simp
next
  case (Cons t ts)
  from Cons.prems have t: "t = x" and rest: "alternates (if x = IN then OUT else IN) ts"
    by simp_all
  show ?case
  proof (cases x)
    case IN
    with Cons.IH[OF rest] t show ?thesis by simp
  next
    case OUT
    with Cons.IH[OF rest] t show ?thesis by simp
  qed
qed

lemma count_list_mset_eq:
  assumes "mset xs = mset ys"
  shows "count_list (map f xs) a = count_list (map f ys) a"
proof -
  have "mset (map f xs) = mset (map f ys)"
    using assms by (metis mset_map)
  then show ?thesis
    by (metis count_mset)
qed

text \<open>
  C2 fails on the code. Alice enrols and scans twice within one millisecond (time 5) and
  once more at time 6, in either in-memory variant: her events are IN and OUT at time 5 and
  OUT at time 6, and no arrangement of them in the order of their timestamps alternates
  from IN.
\<close>

theorem same_millisecond_scans:
  "map (\<lambda>r. (timestamp r, etype r)) (history (attendanceRecords (three_scans v)) ''0000002a'')
     = [(5, IN), (5, OUT), (6, OUT)] \<and>
   \<not> (\<exists>ys. mset ys = mset (history (attendanceRecords (three_scans v)) ''0000002a'') \<and>
            sorted (map timestamp ys) \<and> alternates IN (map etype ys))"
proof -
  have ev: "map (\<lambda>r. (timestamp r, etype r)) (history (attendanceRecords (three_scans v)) ''0000002a'')
     = [(5, IN), (5, OUT), (6, OUT)]"
    by (simp add: three_scans_eq history_def)
  have types: "map etype (history (attendanceRecords (three_scans v)) ''0000002a'') = [IN, OUT, OUT]"
    by (simp add: three_scans_eq history_def)
  have "\<not> alternates IN (map etype ys)"
    if "mset ys = mset (history (attendanceRecords (three_scans v)) ''0000002a'')" for ys
  proof
    assume alt: "alternates IN (map etype ys)"
    have "count_list (map etype ys) OUT = 2" and "count_list (map etype ys) IN = 1"
      using count_list_mset_eq[OF that, of etype] types by simp_all
    with alternates_counts[OF alt] show False
      by simp
  qed
  with ev show ?thesis
    by blast
qed

subsection \<open>Alternation under a ticking clock\<close>

lemma ledger_alternates_iff:
  "ledger_alternates records =
     (\<forall>uid. sorted_wrt (<) (map timestamp (history records uid)) \<and>
            alternates IN (map etype (history records uid)))"
proof -
  have "history records uid = []" if "uid \<notin> userId ` set records" for uid
    using that by (auto simp: history_def filter_empty_conv)
  then show ?thesis
    unfolding ledger_alternates_def list_all_iff
    by (metis alternates.simps(1) list.simps(8) set_map sorted_wrt.simps(1))
qed

lemma alternates_snoc:
  "alternates x ts \<Longrightarrow>
     alternates x (ts @ [t]) = (t = (if ts = [] then x else if last ts = IN then OUT else IN))"
proof (induction ts arbitrary: x)
  case Nil
  show ?case by auto
next
  case (Cons a ts)
  from Cons.prems have a: "a = x" and rest: "alternates (if x = IN then OUT else IN) ts"
    by simp_all
  show ?case
    using Cons.IH[OF rest] a rest by (cases x) auto
qed

lemma last_of_increasing:
  assumes "sorted_wrt (<) (map timestamp h)" and "h \<noteq> []"
  shows "single_latest h (last h)"
proof -
  have split: "h = butlast h @ [last h]"
    using assms(2) by simp
  have "sorted_wrt (<) (map timestamp (butlast h @ [last h]))"
    using assms(1) split by simp
  then have before: "\<forall>x\<in>set (butlast h). timestamp x < timestamp (last h)"
    by (simp add: sorted_wrt_append)
  have "x = last h \<or> timestamp x < timestamp (last h)" if "x \<in> set h" for x
  proof -
    from that split have "x \<in> set (butlast h) \<or> x = last h"
      by (metis Un_iff empty_iff empty_set insert_iff list.simps(15) set_append)
    with before show ?thesis by blast
  qed
  with assms(2) show ?thesis
    by (auto simp: single_latest_def list_all_iff)
qed

lemma eventType_of_increasing:
  assumes "sorted_wrt (<) (map timestamp (history records uid))"
  shows "eventType (lastRecord records uid) =
           (if history records uid = [] then IN
            else if etype (last (history records uid)) = IN then OUT else IN)"
proof (cases "history records uid = []")
  case True
  then have "lastRecord records uid = None"
    by (simp add: lastRecord_None history_def)
  with True show ?thesis
    by (simp add: eventType_def)
next
  case False
  from last_of_increasing[OF assms False]
  have "lastRecord records uid = Some (last (history records uid))"
    unfolding single_latest_iff history_def by (intro lastRecord_single_latest) blast+
  with False show ?thesis
    by (cases "etype (last (history records uid))") (simp_all add: eventType_def)
qed

lemma handle_ledger:
  "attendanceRecords (snd (handle v key st e req)) = attendanceRecords st \<or>
   (\<exists>uid. attendanceRecords (snd (handle v key st e req)) =
            attendanceRecords st @
              [\<lparr>rec_id = toHex4 (rand4 e), userId = uid, timestamp = now e,
                etype = eventType (lastRecord (attendanceRecords st) uid), device = ip req\<rparr>])"
  by (auto simp: handle_def router_def enroll_def check_in_out_def report_def health_def Let_def
      split: route.splits api_route.splits option.splits json.splits)

lemma ledger_alternates_append:
  assumes ok: "ledger_alternates records"
    and ahead: "list_all (\<lambda>r. timestamp r < t) records"
  shows "ledger_alternates
           (records @ [\<lparr>rec_id = i, userId = uid, timestamp = t,
                         etype = eventType (lastRecord records uid), device = d\<rparr>])"
proof -
  let ?r = "\<lparr>rec_id = i, userId = uid, timestamp = t,
             etype = eventType (lastRecord records uid), device = d\<rparr>"
  have "sorted_wrt (<) (map timestamp (history (records @ [?r]) u)) \<and>
        alternates IN (map etype (history (records @ [?r]) u))" for u
  proof (cases "u = uid")
    case False
    then have "history (records @ [?r]) u = history records u"
      by (auto simp: history_def)
    with ok show ?thesis
      by (simp add: ledger_alternates_iff)
  next
    case True
    have h: "history (records @ [?r]) uid = history records uid @ [?r]"
      by (simp add: history_def)
    from ok have inc: "sorted_wrt (<) (map timestamp (history records uid))"
      and alt: "alternates IN (map etype (history records uid))"
      by (simp_all add: ledger_alternates_iff)
    have "\<forall>x\<in>set (history records uid). timestamp x < t"
      using ahead by (auto simp: history_def list_all_iff)
    with inc have inc': "sorted_wrt (<) (map timestamp (history records uid @ [?r]))"
      by (simp add: sorted_wrt_append)
    have "alternates IN (map etype (history records uid) @ [etype ?r])"
      using alternates_snoc[OF alt, of "etype ?r"] eventType_of_increasing[OF inc]
      by (simp add: last_map)
    with inc' show ?thesis
      unfolding True h by simp
  qed
  then show ?thesis
    by (simp add: ledger_alternates_iff)
qed

text \<open>
  Where every request finds the clock later than all timestamps of the ledger, the
  invariant is kept: the types of each identity alternate from IN.
\<close>

lemma alternation_with_ticking_clock:
  "ledger_alternates (attendanceRecords st) \<Longrightarrow> ticking v key st inputs \<Longrightarrow>
     ledger_alternates (attendanceRecords (run v key st inputs))"
proof (induction inputs arbitrary: st)
  case Nil
  then show ?case by simp
next
  case (Cons a inputs)
  obtain e req where a: "a = (e, req)"
    by (cases a)
  from Cons.prems(2) have ahead: "list_all (\<lambda>r. timestamp r < now e) (attendanceRecords st)"
    and rest: "ticking v key (snd (handle v key st e req)) inputs"
    by (simp_all add: a)
  have "ledger_alternates (attendanceRecords (snd (handle v key st e req)))"
    using handle_ledger[of v key st e req] Cons.prems(1) ledger_alternates_append[OF Cons.prems(1) ahead]
    by auto
  from Cons.IH[OF this rest] show ?case
    by (simp add: a)
qed

subsection \<open>Templates are not echoed\<close>

lemma falsy_blank: "falsy (map_option blank p) = falsy p"
proof (cases p)
  case None
  then show ?thesis by simp
next
  case (Some j)
  then show ?thesis by (cases j) simp_all
qed

lemma blank_array: "(blank j = JArr ys) = (\<exists>xs. j = JArr xs \<and> ys = replicate (length xs) JNull)"
  by (cases j) auto

lemma identify_erased:
  "identify v (map erase_user us) (replicate (length xs) JNull) = identify v us xs"
  by (cases v; cases us)
    (simp_all add: identifyUserFromVector_def identifyUserFromFingerprint_def erase_user_def)

lemma find_erased:
  "find (\<lambda>u. user_id u = uid) (map erase_user us) = map_option erase_user (find (\<lambda>u. user_id u = uid) us)"
  by (induction us) (simp_all add: erase_user_def)

lemma userName_of_erased: "userName_of v (map erase_user us) uid = userName_of v us uid"
  by (simp add: userName_of_def find_erased erase_user_def split: option.splits)

lemma add_userName_erased: "add_userName (map erase_user us) = add_userName us"
  by (rule ext) (simp add: add_userName_def find_erased erase_user_def split: option.splits)

lemma list_ex_erased:
  "list_ex (\<lambda>u. user_id u = uid) (map erase_user us) = list_ex (\<lambda>u. user_id u = uid) us"
  by (induction us) (simp_all add: erase_user_def)

lemma erased_fields:
  "req_body (erase_req v req) ''name'' = req_body req ''name''"
  "req_body (erase_req v req) (enroll_field v) = map_option blank (req_body req (enroll_field v))"
  "req_body (erase_req v req) (scan_field v) = map_option blank (req_body req (scan_field v))"
  by (cases v; simp add: erase_req_def)+

lemma enroll_erased:
  "enroll v (erase_state st) e (erase_req v req) =
     (fst (enroll v st e req), erase_state (snd (enroll v st e req)))"
proof (cases "req_body req (enroll_field v)")
  case None
  then show ?thesis
    by (simp add: enroll_def erased_fields erase_state_def Let_def)
next
  case (Some j)
  show ?thesis
  proof (cases j)
    case (JArr xs)
    with Some show ?thesis
      by (simp add: enroll_def erased_fields erase_state_def erase_user_def Let_def
          split: option.splits)
  qed (simp_all add: Some enroll_def erased_fields erase_state_def Let_def split: option.splits)
qed

lemma check_in_out_erased:
  "check_in_out v (erase_state st) e (erase_req v req) =
     (fst (check_in_out v st e req), erase_state (snd (check_in_out v st e req)))"
proof (cases "req_body req (scan_field v)")
  case None
  then show ?thesis
    by (simp add: check_in_out_def erased_fields erase_state_def Let_def)
next
  case (Some j)
  show ?thesis
  proof (cases j)
    case (JArr xs)
    have id: "identify v (users (erase_state st)) (replicate (length xs) JNull)
                = identify v (users st) xs"
      by (simp add: erase_state_def identify_erased)
    from Some JArr show ?thesis
      unfolding check_in_out_def erased_fields
      by (simp add: id Let_def split: option.splits)
        (simp add: erase_state_def erase_req_def userName_of_erased)
  qed (simp_all add: Some check_in_out_def erased_fields erase_state_def Let_def)
qed

lemma report_erased:
  "report (erase_state st) (erase_req v req) = (fst (report st req), erase_state (snd (report st req)))"
  by (simp add: report_def report_records_def detailedReport_def erase_state_def erase_req_def
      add_userName_erased list_ex_erased Let_def split: option.splits)

lemma handle_erased:
  "handle v key (erase_state st) e (erase_req v req) =
     (fst (handle v key st e req), erase_state (snd (handle v key st e req)))"
proof (cases "route req")
  case Health
  then show ?thesis
    by (simp add: handle_def health_def erase_req_def erase_state_def)
next
  case (Api r)
  have auth: "apiAuth key (erase_req v req) = apiAuth key req"
    by (simp add: apiAuth_def erase_req_def)
  have rt: "route (erase_req v req) = route req"
    by (simp add: erase_req_def)
  show ?thesis
    unfolding handle_def rt Api
    by (cases r) (simp_all add: router_def auth enroll_erased check_in_out_erased report_erased)
qed

text \<open>
  C7. The responses to any sequence of requests (enrollment, check_in_out, report, health),
  from any state, are the responses to the same sequence with every template erased, those
  stored in the state and those submitted in the requests: a response depends on no
  template beyond its being falsy, its being an array and the length of the array, so it
  cannot carry one.
\<close>

lemma erase_db_simps:
  "user_named (erase_db d) = user_named d" "new_user (erase_db d) = new_user d"
  "user_saved (erase_db d) = user_saved d" "users_by_name (erase_db d) = users_by_name d"
  "latest_of (erase_db d) = latest_of d" "attendance_saved (erase_db d) = attendance_saved d"
  "user_by_id (erase_db d) = user_by_id d" "sorted_report (erase_db d) = sorted_report d"
  "readyState (erase_db d) = readyState d"
  by (simp_all add: erase_db_def)

lemma enroll_mongoose_erased:
  "enroll_mongoose (erase_db d) (erase_req Fingerprint req) = enroll_mongoose d req"
proof (cases "req_body req ''fingerprintTemplate''")
  case None
  then show ?thesis
    using erased_fields[of Fingerprint req] by (simp add: enroll_mongoose_def Let_def)
next
  case (Some j)
  show ?thesis
  proof (cases j)
    case (JArr xs)
    with Some show ?thesis
      using erased_fields[of Fingerprint req]
      by (simp add: enroll_mongoose_def erase_db_simps Let_def split: option.splits)
  qed (use Some erased_fields[of Fingerprint req] in
      \<open>simp_all add: enroll_mongoose_def Let_def split: option.splits\<close>)
qed

lemma resolver_async_erased:
  "identifyUserFromFingerprint_async (erase_db d) (replicate (length xs) JNull) =
     identifyUserFromFingerprint_async d xs"
  by (simp add: identifyUserFromFingerprint_async_def erase_db_def erase_user_def
      split: option.splits list.splits)

lemma check_in_out_mongoose_erased:
  "check_in_out_mongoose (erase_db d) e (erase_req Fingerprint req) = check_in_out_mongoose d e req"
proof (cases "req_body req ''incomingTemplate''")
  case None
  then show ?thesis
    using erased_fields[of Fingerprint req] by (simp add: check_in_out_mongoose_def Let_def)
next
  case (Some j)
  show ?thesis
  proof (cases j)
    case (JArr xs)
    with Some show ?thesis
      using erased_fields[of Fingerprint req]
      by (simp add: check_in_out_mongoose_def resolver_async_erased erase_db_simps Let_def
          split: option.splits)
  qed (use Some erased_fields[of Fingerprint req] in
      \<open>simp_all add: check_in_out_mongoose_def Let_def\<close>)
qed

lemma handle_mongoose_erased:
  "handle_mongoose isValid key (erase_db d) e r (erase_req Fingerprint req) =
     handle_mongoose isValid key d e r req"
proof -
  have auth: "apiAuth key (erase_req Fingerprint req) = apiAuth key req"
    by (simp add: apiAuth_def erase_req_def)
  have q: "query_userId (erase_req Fingerprint req) = query_userId req"
    by (simp add: erase_req_def)
  show ?thesis
    by (cases r)
      (simp_all add: handle_mongoose_def auth q erase_db_simps users_mongoose_def
        enroll_mongoose_erased check_in_out_mongoose_erased)
qed

text \<open>
  C7. The responses to any sequence of requests (enrollment, check_in_out, report, health)
  of the in-memory variants, from any state, are the responses to the same sequence with
  every template erased, those stored in the state and those submitted in the requests.
  The response of the mongoose variant to any request on any of its routes (these four and
  the list of users), for any answers of the database, is its response with the submitted
  template and the templates in the answers of the database erased. So a response depends
  on no template beyond its being falsy, its being an array and the length of the array:
  it cannot carry one.
\<close>

theorem responses_ignore_templates:
  "responses v key (erase_state st) (map (\<lambda>(e, req). (e, erase_req v req)) inputs) =
     responses v key st inputs \<and>
   handle_mongoose isValid key (erase_db d) e r (erase_req Fingerprint req) =
     handle_mongoose isValid key d e r req"
proof -
  have "responses v key (erase_state st) (map (\<lambda>(e, req). (e, erase_req v req)) inputs) =
          responses v key st inputs"
  proof (induction inputs arbitrary: st)
    case Nil
    show ?case by simp
  next
    case (Cons a inputs)
    obtain e req where a: "a = (e, req)"
      by (cases a)
    show ?case
      by (simp add: a handle_erased Cons.IH)
  qed
  then show ?thesis
    by (simp add: handle_mongoose_erased)
qed

end
